theory Spec2Isabelle
  imports Main "HOL-Library.Word"
begin

section \<open>Strings, timestamps and errors\<close>

text \<open>
  A JavaScript string is a sequence of UTF-16 code units and \<open>.length\<close> counts code
  units, so the police-light emoji of the SMS banner (U+1F6A8) counts as two.
  ISO-8601 timestamps produced by \<open>new Date().toISOString()\<close> carry millisecond
  precision and \<open>new Date(s).getTime()\<close> reads the same milliseconds back, so a
  timestamp is modelled by its milliseconds since the epoch.
\<close>

type_synonym jsstring = "16 word list"
type_synonym timestamp = int

definition ascii :: "string \<Rightarrow> jsstring" where
  "ascii s = map of_char s"

text \<open>JavaScript truthiness of an optional string: \<open>undefined\<close> and \<open>''\<close> are falsy.\<close>

definition truthy :: "jsstring option \<Rightarrow> bool" where
  "truthy s = (case s of None \<Rightarrow> False | Some v \<Rightarrow> v \<noteq> [])"

text \<open>\<open>s.substring(0, n)\<close>: a negative end counts as 0, an end past the string as its length.\<close>

definition substring0 :: "jsstring \<Rightarrow> int \<Rightarrow> jsstring" where
  "substring0 s n = take (nat n) s"

text \<open>
  Every \<open>throw\<close> of the source and every rejection of an external call is a value of
  this type. \<open>ExternalFailure\<close> stands for an exception raised inside an SDK or network
  call (fetch, Cosmos DB, Service Bus, Communication Services).
\<close>

datatype error =
    ConfigError jsstring
  | ProductNotFound jsstring
  | BestBuyApiError nat
  | SmsDeliveryFailed "jsstring option"
  | TypeError
  | ExternalFailure jsstring
  | AllDeliveriesFailed "error option list"

section \<open>Shared data model\<close>

datatype RetailerId = bestbuy | amazon | walmart | target

datatype Priority = high | normal

record StoreLocation =
  loc_storeId :: jsstring
  loc_storeName :: jsstring
  loc_address :: "jsstring option"
  loc_zipCode :: jsstring

record AvailabilityState =
  available :: bool
  quantity :: "int option"
  lastKnownAvailable :: "timestamp option"

record StoreAvailability = AvailabilityState +
  storeId :: jsstring

record InventoryStatus =
  online :: AvailabilityState
  stores :: "StoreAvailability list"

record MonitoredProduct =
  id :: jsstring
  retailer :: RetailerId
  sku :: jsstring
  name :: jsstring
  isActive :: bool
  priority :: Priority
  storeLocations :: "StoreLocation list option"
  currentStatus :: InventoryStatus
  lastCheckedAt :: timestamp
  lastStatusChangeAt :: "timestamp option"
  imageUrl :: "jsstring option"
  productUrl :: jsstring
  addToCartUrl :: jsstring
  createdAt :: timestamp
  updatedAt :: timestamp

datatype HistoryEventType = in_stock | out_of_stock

record InventoryHistoryEntry =
  h_id :: jsstring
  h_productId :: jsstring
  h_eventType :: HistoryEventType
  h_timestamp :: timestamp
  h_retailer :: RetailerId
  h_sku :: jsstring
  h_online :: bool
  h_stores :: "StoreAvailability list"
  durationInStockMs :: "int option"
  ttl :: "nat option"

datatype ChangeEventType = inventory_available | inventory_unavailable

record EventProduct =
  ep_id :: jsstring
  ep_sku :: jsstring
  ep_name :: jsstring
  ep_retailer :: RetailerId
  ep_productUrl :: jsstring
  ep_addToCartUrl :: jsstring
  ep_imageUrl :: "jsstring option"

record EventStore =
  es_storeId :: jsstring
  es_storeName :: jsstring
  es_available :: bool

record EventAvailability =
  ea_online :: bool
  ea_stores :: "EventStore list"

record EventMetadata =
  correlationId :: jsstring
  source :: jsstring

record InventoryChangeEvent =
  eventId :: jsstring
  eventType :: ChangeEventType
  e_timestamp :: timestamp
  product :: EventProduct
  availability :: EventAvailability
  metadata :: EventMetadata

text \<open>
  The TypeScript type of a channel is \<open>'sms' | 'push'\<close>; the dispatcher still has a
  \<open>default\<close> branch for any other string found in a queued payload.
\<close>

datatype Channel = sms | push | other_channel jsstring

record NotificationRequest =
  requestId :: jsstring
  r_timestamp :: timestamp
  triggerEvent :: InventoryChangeEvent
  channels :: "Channel list"
  attemptCount :: int
  maxAttempts :: int
  r_correlationId :: jsstring

record NotificationResult =
  nr_requestId :: jsstring
  success :: bool
  channel :: Channel
  nr_error :: "error option"
  nr_timestamp :: timestamp

record PushKeys =
  p256dh :: jsstring
  auth :: jsstring

record PushSubscription =
  endpoint :: jsstring
  keys :: PushKeys

record SmsPreferences =
  sms_enabled :: bool
  phoneNumber :: "jsstring option"

record PushPreferences =
  push_enabled :: bool
  subscriptions :: "PushSubscription list"

record NotificationPreferences =
  pref_sms :: SmsPreferences
  pref_push :: PushPreferences

record UserPreferences =
  up_id :: jsstring
  notifications :: NotificationPreferences

section \<open>SMS sender (sms-service)\<close>

text \<open>The environment variables the SMS service reads.\<close>

record sms_process_env =
  ACS_ENDPOINT :: "jsstring option"
  ACS_SMS_FROM_NUMBER :: "jsstring option"
  ACS_CONNECTION_STRING :: "jsstring option"

datatype SmsClient = ConnectionStringClient jsstring | ManagedIdentityClient jsstring

record SmsNotificationService =
  client :: SmsClient
  fromNumber :: jsstring

text \<open>The constructor throws only when \<open>ACS_ENDPOINT\<close> is missing or empty.\<close>

definition SmsNotificationService_new :: "sms_process_env \<Rightarrow> error + SmsNotificationService" where
  "SmsNotificationService_new penv =
     (if \<not> truthy (ACS_ENDPOINT penv)
      then Inl (ConfigError (ascii ''ACS_ENDPOINT environment variable is required''))
      else Inr \<lparr> client =
                    (if truthy (ACS_CONNECTION_STRING penv)
                     then ConnectionStringClient (the (ACS_CONNECTION_STRING penv))
                     else ManagedIdentityClient (the (ACS_ENDPOINT penv))),
                  fromNumber = (case ACS_SMS_FROM_NUMBER penv of None \<Rightarrow> [] | Some n \<Rightarrow> n) \<rparr>)"

text \<open>What is handed to the Communication Services client, and what it answers.\<close>

record SmsSendRequest =
  sr_from :: jsstring
  sr_to :: "jsstring list"
  sr_message :: jsstring

record SmsSendResult =
  successful :: bool
  messageId :: "jsstring option"
  errorMessage :: "jsstring option"

type_synonym acs = "SmsSendRequest \<Rightarrow> error + SmsSendResult list"

text \<open>
  \<open>sendSms\<close> performs the external call unconditionally. The second component is the
  list of requests handed to the external client; the first is the first element of
  the answer (\<open>undefined\<close>, here \<open>None\<close>, when the answer is empty).
\<close>

definition sendSms ::
  "SmsNotificationService \<Rightarrow> acs \<Rightarrow> jsstring \<Rightarrow> jsstring
     \<Rightarrow> (error + SmsSendResult option) \<times> SmsSendRequest list" where
  "sendSms svc send toNumber message =
     (let request = \<lparr> sr_from = fromNumber svc, sr_to = [toNumber], sr_message = message \<rparr>
      in (case send request of
            Inl e \<Rightarrow> Inl e
          | Inr [] \<Rightarrow> Inr None
          | Inr (result # _) \<Rightarrow> Inr (Some result),
          [request]))"

definition isConfigured :: "SmsNotificationService \<Rightarrow> sms_process_env \<Rightarrow> bool" where
  "isConfigured svc penv = (fromNumber svc \<noteq> [] \<and> truthy (ACS_ENDPOINT penv))"

definition banner :: jsstring where
  "banner = [0xD83D, 0xDEA8] @ ascii '' IN STOCK''"

definition locationText :: "jsstring option \<Rightarrow> jsstring" where
  "locationText location =
     (if truthy location then ascii '' at '' @ the location else ascii '' online'')"

definition formatAlertMessage ::
  "jsstring \<Rightarrow> RetailerId \<Rightarrow> jsstring \<Rightarrow> jsstring option \<Rightarrow> jsstring" where
  "formatAlertMessage productName retailerId cartUrl location =
     (let baseMessage = banner @ locationText location @ ascii ''!\<newline>'' @ productName
                          @ ascii ''\<newline>'';
          urlText = ascii ''\<newline>'' @ cartUrl;
          maxProductLength = 160 - int (length baseMessage) - int (length urlText)
                               + int (length productName);
          truncatedName =
            (if int (length productName) > maxProductLength
             then substring0 productName (maxProductLength - 3) @ ascii ''...''
             else productName)
      in banner @ locationText location @ ascii ''!\<newline>'' @ truncatedName
           @ ascii ''\<newline>'' @ cartUrl)"

text \<open>The budget left for the product name, as \<open>formatAlertMessage\<close> computes it.\<close>

definition nameBudget :: "jsstring \<Rightarrow> jsstring option \<Rightarrow> int" where
  "nameBudget cartUrl location =
     145 - int (length (locationText location)) - int (length cartUrl)"

section \<open>Best Buy provider adapter and provider factory\<close>

record RateLimit =
  requestsPerSecond :: nat
  requestsPerDay :: "nat option"

record InventoryProviderConfig =
  apiKey :: jsstring
  rateLimit :: "RateLimit option"

record InventoryCheckResult =
  res_status :: InventoryStatus
  res_productUrl :: jsstring
  res_addToCartUrl :: jsstring
  res_imageUrl :: "jsstring option"
  res_productName :: "jsstring option"

text \<open>The fields of the Best Buy answers that the adapter reads.\<close>

record BestBuyProduct =
  bb_name :: jsstring
  bb_image :: jsstring
  onlineAvailability :: bool

record BestBuyProductResponse =
  bb_products :: "BestBuyProduct list option"
  bb_total :: int

record BestBuyStoreAvailability =
  store_storeId :: jsstring
  inStorePickup :: bool

record BestBuyStoreResponse =
  bb_stores :: "BestBuyStoreAvailability list option"

text \<open>
  What \<open>fetch\<close> can do: reject (network failure), answer with a status outside
  200..299 (\<open>response.ok\<close> is false), or answer with a parsed body.
\<close>

datatype 'a http_reply = FetchRejected jsstring | HttpError nat | HttpOk 'a

record upstream =
  productsEndpoint :: "jsstring \<Rightarrow> BestBuyProductResponse http_reply"
  storesEndpoint :: "jsstring \<Rightarrow> jsstring list \<Rightarrow> BestBuyStoreResponse http_reply"

datatype UpstreamRequest = ProductsRequest jsstring | StoresRequest jsstring "jsstring list"

type_synonym request_log = "(timestamp \<times> UpstreamRequest) list"

record BestBuyInventoryProvider =
  bb_apiKey :: jsstring
  bb_rateLimit :: RateLimit

definition BestBuyInventoryProvider_new :: "InventoryProviderConfig \<Rightarrow> BestBuyInventoryProvider" where
  "BestBuyInventoryProvider_new config =
     \<lparr> bb_apiKey = apiKey config,
       bb_rateLimit = (case rateLimit config of
                         None \<Rightarrow> \<lparr> requestsPerSecond = 5, requestsPerDay = None \<rparr>
                       | Some r \<Rightarrow> r) \<rparr>"

definition getAddToCartUrl :: "jsstring \<Rightarrow> jsstring" where
  "getAddToCartUrl s = ascii ''https://api.bestbuy.com/click/-/'' @ s @ ascii ''/cart''"

definition getProductUrl :: "jsstring \<Rightarrow> jsstring" where
  "getProductUrl s = ascii ''https://www.bestbuy.com/site/'' @ s @ ascii ''.p''"

definition fetchProductDetails :: "upstream \<Rightarrow> jsstring \<Rightarrow> error + BestBuyProduct option" where
  "fetchProductDetails up s =
     (case productsEndpoint up s of
        FetchRejected m \<Rightarrow> Inl (ExternalFailure m)
      | HttpError st \<Rightarrow> if st = 404 then Inr None else Inl (BestBuyApiError st)
      | HttpOk data \<Rightarrow>
          if bb_total data = 0 \<or> bb_products data = None \<or> bb_products data = Some []
          then Inr None
          else Inr (Some (hd (the (bb_products data)))))"

definition fetchStoreAvailability ::
  "upstream \<Rightarrow> jsstring \<Rightarrow> jsstring list \<Rightarrow> error + BestBuyStoreAvailability list" where
  "fetchStoreAvailability up s storeIds =
     (case storesEndpoint up s storeIds of
        FetchRejected m \<Rightarrow> Inl (ExternalFailure m)
      | HttpError st \<Rightarrow> Inl (BestBuyApiError st)
      | HttpOk data \<Rightarrow> Inr (case bb_stores data of None \<Rightarrow> [] | Some l \<Rightarrow> l))"

text \<open>
  \<open>checkInventory\<close> at clock reading \<open>t\<close>. Besides its result it returns the upstream
  requests it issued, each stamped with \<open>t\<close>. The field \<open>bb_rateLimit\<close> of the provider
  is stored by the constructor and read nowhere.
\<close>

definition checkInventory ::
  "BestBuyInventoryProvider \<Rightarrow> upstream \<Rightarrow> timestamp \<Rightarrow> jsstring \<Rightarrow> StoreLocation list option
     \<Rightarrow> (error + InventoryCheckResult) \<times> request_log" where
  "checkInventory provider up t s locations =
     (case fetchProductDetails up s of
        Inl e \<Rightarrow> (Inl e, [(t, ProductsRequest s)])
      | Inr None \<Rightarrow> (Inl (ProductNotFound s), [(t, ProductsRequest s)])
      | Inr (Some productData) \<Rightarrow>
          (let onlineState = \<lparr> available = onlineAvailability productData,
                                quantity = None,
                                lastKnownAvailable =
                                  (if onlineAvailability productData then Some t else None) \<rparr>;
               result = (\<lambda>storeStates.
                  \<lparr> res_status = \<lparr> online = onlineState, stores = storeStates \<rparr>,
                    res_productUrl = getProductUrl s,
                    res_addToCartUrl = getAddToCartUrl s,
                    res_imageUrl = Some (bb_image productData),
                    res_productName = Some (bb_name productData) \<rparr>)
           in (case locations of
                 None \<Rightarrow> (Inr (result []), [(t, ProductsRequest s)])
               | Some locs \<Rightarrow>
                   if length locs > 0
                   then (let storeIds = map loc_storeId locs
                         in (case fetchStoreAvailability up s storeIds of
                               Inl e \<Rightarrow>
                                 (Inl e, [(t, ProductsRequest s), (t, StoresRequest s storeIds)])
                             | Inr storeAvailability \<Rightarrow>
                                 (Inr (result (map (\<lambda>sa.
                                     \<lparr> available = inStorePickup sa,
                                       quantity = None,
                                       lastKnownAvailable =
                                         (if inStorePickup sa then Some t else None),
                                       storeId = store_storeId sa \<rparr>) storeAvailability)),
                                  [(t, ProductsRequest s), (t, StoresRequest s storeIds)])))
                   else (Inr (result []), [(t, ProductsRequest s)]))))"

text \<open>A sequence of checks through one adapter: call after call, the request logs appended.\<close>

fun checkSequence ::
  "BestBuyInventoryProvider \<Rightarrow> upstream \<Rightarrow> (timestamp \<times> jsstring \<times> StoreLocation list option) list
     \<Rightarrow> (error + InventoryCheckResult) list \<times> request_log" where
  "checkSequence provider up [] = ([], [])"
| "checkSequence provider up ((t, s, locations) # calls) =
     (case checkInventory provider up t s locations of
        (r, reqs) \<Rightarrow>
          (case checkSequence provider up calls of
             (rs, log) \<Rightarrow> (r # rs, reqs @ log)))"

text \<open>
  The rate limit in the words of the specification: no window of one second
  (1000 ms) starting at a request holds more requests than \<open>requestsPerSecond\<close>.
\<close>

definition spec_withinRate :: "RateLimit \<Rightarrow> request_log \<Rightarrow> bool" where
  "spec_withinRate rl log =
     list_all (\<lambda>(t, _). length (filter (\<lambda>(u, _). t \<le> u \<and> u < t + 1000) log)
                            \<le> requestsPerSecond rl) log"

text \<open>
  The only provider class of the repository is the Best Buy one, so the factory's
  \<open>Map<RetailerId, IInventoryProvider>\<close> is a map to Best Buy providers.
\<close>

type_synonym InventoryProviderFactory = "RetailerId \<rightharpoonup> BestBuyInventoryProvider"

definition registerProvider ::
  "InventoryProviderFactory \<Rightarrow> BestBuyInventoryProvider \<Rightarrow> InventoryProviderFactory" where
  "registerProvider factory provider = factory(bestbuy \<mapsto> provider)"

definition create :: "(RetailerId \<rightharpoonup> InventoryProviderConfig) \<Rightarrow> InventoryProviderFactory" where
  "create configs =
     (case configs bestbuy of
        None \<Rightarrow> Map.empty
      | Some config \<Rightarrow>
          if apiKey config \<noteq> []
          then registerProvider Map.empty (BestBuyInventoryProvider_new config)
          else Map.empty)"

definition getProvider :: "InventoryProviderFactory \<Rightarrow> RetailerId \<Rightarrow> BestBuyInventoryProvider option" where
  "getProvider factory r = factory r"

section \<open>Persisted state and transport (cosmos-client, service-bus-client)\<close>

text \<open>
  The containers and queues the poll worker writes to, and the log of the upstream
  requests it caused. Items are kept in insertion order.
\<close>

record world =
  products_container :: "MonitoredProduct list"
  history_container :: "InventoryHistoryEntry list"
  inventory_events :: "InventoryChangeEvent list"
  notifications_queue :: "NotificationRequest list"
  upstream_log :: request_log

text \<open>
  The calls to Cosmos DB and Service Bus can reject. Whether a call of one check
  rejects, and with what, is an input: \<open>Some e\<close> means the call rejects with \<open>e\<close>
  and leaves the stored data as it was.
\<close>

datatype external_call =
  UpdateProduct | GetLatestHistoryEntry | AddHistoryEntry | SendInventoryEvent | QueueNotification

text \<open>
  \<open>item(id, id).replace(product)\<close> puts the record in the place of the stored item
  with the same id. \<open>updateProduct\<close> stamps \<open>updatedAt\<close> first; nothing the check
  does afterwards reads that field.
\<close>

definition replaceItem :: "MonitoredProduct \<Rightarrow> MonitoredProduct list \<Rightarrow> MonitoredProduct list" where
  "replaceItem p items = map (\<lambda>q. if id q = id p then p else q) items"

definition updateProduct ::
  "error option \<Rightarrow> timestamp \<Rightarrow> MonitoredProduct \<Rightarrow> world \<Rightarrow> (error + unit) \<times> world" where
  "updateProduct rejects t p w =
     (case rejects of
        Some e \<Rightarrow> (Inl e, w)
      | None \<Rightarrow>
          (Inr (), w\<lparr> products_container :=
                        replaceItem (p\<lparr> updatedAt := t \<rparr>) (products_container w) \<rparr>))"

definition addHistoryEntry ::
  "error option \<Rightarrow> InventoryHistoryEntry \<Rightarrow> world \<Rightarrow> (error + unit) \<times> world" where
  "addHistoryEntry rejects entry w =
     (case rejects of
        Some e \<Rightarrow> (Inl e, w)
      | None \<Rightarrow> (Inr (), w\<lparr> history_container := history_container w @ [entry] \<rparr>))"

text \<open>
  \<open>SELECT TOP 1 ... ORDER BY c.timestamp DESC\<close>: an entry with the greatest timestamp;
  among entries with equal timestamps the one stored last is taken.
\<close>

fun latestOf :: "InventoryHistoryEntry list \<Rightarrow> InventoryHistoryEntry option" where
  "latestOf [] = None"
| "latestOf (h # hs) =
     (case latestOf hs of
        None \<Rightarrow> Some h
      | Some g \<Rightarrow> if h_timestamp h \<le> h_timestamp g then Some g else Some h)"

definition getLatestHistoryEntry ::
  "error option \<Rightarrow> jsstring \<Rightarrow> world \<Rightarrow> error + InventoryHistoryEntry option" where
  "getLatestHistoryEntry rejects productId w =
     (case rejects of
        Some e \<Rightarrow> Inl e
      | None \<Rightarrow> Inr (latestOf (filter (\<lambda>h. h_productId h = productId) (history_container w))))"

definition sendInventoryEvent ::
  "error option \<Rightarrow> InventoryChangeEvent \<Rightarrow> world \<Rightarrow> (error + unit) \<times> world" where
  "sendInventoryEvent rejects event w =
     (case rejects of
        Some e \<Rightarrow> (Inl e, w)
      | None \<Rightarrow> (Inr (), w\<lparr> inventory_events := inventory_events w @ [event] \<rparr>))"

definition queueNotification ::
  "error option \<Rightarrow> NotificationRequest \<Rightarrow> world \<Rightarrow> (error + unit) \<times> world" where
  "queueNotification rejects request w =
     (case rejects of
        Some e \<Rightarrow> (Inl e, w)
      | None \<Rightarrow> (Inr (), w\<lparr> notifications_queue := notifications_queue w @ [request] \<rparr>))"

section \<open>Poll worker (inventory-monitor)\<close>

text \<open>
  What one product check takes from outside: the upstream answers, the three clock
  readings (inside the provider, \<open>now\<close> of the check, \<open>updatedAt\<close> inside
  \<open>updateProduct\<close>), the three generated UUIDs and the outcome of each external call.
\<close>

record check_env =
  upstream_of :: upstream
  t_provider :: timestamp
  t_now :: timestamp
  t_update :: timestamp
  historyUuid :: jsstring
  eventUuid :: jsstring
  requestUuid :: jsstring
  rejecting :: "external_call \<Rightarrow> error option"

definition isAvailable :: "InventoryStatus \<Rightarrow> bool" where
  "isAvailable status = (available (online status) \<or> list_ex available (stores status))"

text \<open>The in-place mutation of the product record before it is written back.\<close>

definition refreshedProduct ::
  "MonitoredProduct \<Rightarrow> InventoryCheckResult \<Rightarrow> timestamp \<Rightarrow> MonitoredProduct" where
  "refreshedProduct p result now =
     (let statusChanged = (isAvailable (currentStatus p) \<noteq> isAvailable (res_status result))
      in p\<lparr> currentStatus := res_status result,
            lastCheckedAt := now,
            lastStatusChangeAt := (if statusChanged then Some now else lastStatusChangeAt p),
            productUrl := res_productUrl result,
            addToCartUrl := res_addToCartUrl result,
            imageUrl := (if truthy (res_imageUrl result) then res_imageUrl result
                         else imageUrl p) \<rparr>)"

definition newHistoryEntry ::
  "jsstring \<Rightarrow> MonitoredProduct \<Rightarrow> InventoryCheckResult \<Rightarrow> timestamp
     \<Rightarrow> InventoryHistoryEntry option \<Rightarrow> InventoryHistoryEntry" where
  "newHistoryEntry uuid p result now previousEntry =
     (let nowAvailable = isAvailable (res_status result)
      in \<lparr> h_id = uuid,
           h_productId = id p,
           h_eventType = (if nowAvailable then in_stock else out_of_stock),
           h_timestamp = now,
           h_retailer = retailer p,
           h_sku = sku p,
           h_online = available (online (res_status result)),
           h_stores = stores (res_status result),
           durationInStockMs =
             (case previousEntry of
                None \<Rightarrow> None
              | Some prev \<Rightarrow>
                  if h_eventType prev = in_stock \<and> \<not> nowAvailable
                  then Some (now - h_timestamp prev)
                  else None),
           ttl = Some (90 * 24 * 60 * 60) \<rparr>)"

definition eventStoreName :: "MonitoredProduct \<Rightarrow> jsstring \<Rightarrow> jsstring" where
  "eventStoreName p sid =
     (case storeLocations p of
        None \<Rightarrow> sid
      | Some locs \<Rightarrow>
          (case find (\<lambda>loc. loc_storeId loc = sid) locs of
             None \<Rightarrow> sid
           | Some loc \<Rightarrow> loc_storeName loc))"

definition newChangeEvent ::
  "jsstring \<Rightarrow> jsstring \<Rightarrow> MonitoredProduct \<Rightarrow> InventoryCheckResult \<Rightarrow> timestamp
     \<Rightarrow> InventoryChangeEvent" where
  "newChangeEvent uuid cid p result now =
     \<lparr> eventId = uuid,
       eventType = (if isAvailable (res_status result) then inventory_available
                    else inventory_unavailable),
       e_timestamp = now,
       product = \<lparr> ep_id = id p, ep_sku = sku p, ep_name = name p, ep_retailer = retailer p,
                   ep_productUrl = productUrl p, ep_addToCartUrl = addToCartUrl p,
                   ep_imageUrl = imageUrl p \<rparr>,
       availability =
         \<lparr> ea_online = available (online (res_status result)),
           ea_stores = map (\<lambda>s. \<lparr> es_storeId = storeId s,
                                   es_storeName = eventStoreName p (storeId s),
                                   es_available = available s \<rparr>)
                           (stores (res_status result)) \<rparr>,
       metadata = \<lparr> correlationId = cid, source = ascii ''inventory-monitor'' \<rparr> \<rparr>"

definition newNotificationRequest ::
  "jsstring \<Rightarrow> jsstring \<Rightarrow> InventoryChangeEvent \<Rightarrow> timestamp \<Rightarrow> NotificationRequest" where
  "newNotificationRequest uuid cid event now =
     \<lparr> requestId = uuid,
       r_timestamp = now,
       triggerEvent = event,
       channels = [sms],
       attemptCount = 0,
       maxAttempts = 3,
       r_correlationId = cid \<rparr>"

text \<open>
  The branch \<open>if (statusChanged) { ... }\<close>, entered with the refreshed product: read the
  latest history entry, append the new one, publish the event and, for a transition to
  available only, queue the notification request. A rejected call ends the check there.
\<close>

definition handleStatusChange ::
  "check_env \<Rightarrow> jsstring \<Rightarrow> MonitoredProduct \<Rightarrow> InventoryCheckResult \<Rightarrow> world
     \<Rightarrow> (error + unit) \<times> world" where
  "handleStatusChange env cid p result w =
     (case getLatestHistoryEntry (rejecting env GetLatestHistoryEntry) (id p) w of
        Inl e \<Rightarrow> (Inl e, w)
      | Inr previousEntry \<Rightarrow>
          (case addHistoryEntry (rejecting env AddHistoryEntry)
                  (newHistoryEntry (historyUuid env) p result (t_now env) previousEntry) w of
             (Inl e, w1) \<Rightarrow> (Inl e, w1)
           | (Inr _, w1) \<Rightarrow>
               (let event = newChangeEvent (eventUuid env) cid p result (t_now env)
                in (case sendInventoryEvent (rejecting env SendInventoryEvent) event w1 of
                      (Inl e, w2) \<Rightarrow> (Inl e, w2)
                    | (Inr _, w2) \<Rightarrow>
                        if isAvailable (res_status result)
                        then queueNotification (rejecting env QueueNotification)
                               (newNotificationRequest (requestUuid env) cid event (t_now env)) w2
                        else (Inr (), w2)))))"

definition checkProductInventory ::
  "InventoryProviderFactory \<Rightarrow> check_env \<Rightarrow> jsstring \<Rightarrow> MonitoredProduct \<Rightarrow> world
     \<Rightarrow> (error + unit) \<times> world" where
  "checkProductInventory providerFactory env cid p w =
     (case getProvider providerFactory (retailer p) of
        None \<Rightarrow> (Inr (), w)
      | Some provider \<Rightarrow>
          (case checkInventory provider (upstream_of env) (t_provider env) (sku p)
                  (storeLocations p) of
             (Inl e, reqs) \<Rightarrow> (Inl e, w\<lparr> upstream_log := upstream_log w @ reqs \<rparr>)
           | (Inr result, reqs) \<Rightarrow>
               (let w0 = w\<lparr> upstream_log := upstream_log w @ reqs \<rparr>;
                    statusChanged =
                      (isAvailable (currentStatus p) \<noteq> isAvailable (res_status result));
                    p1 = refreshedProduct p result (t_now env)
                in (case updateProduct (rejecting env UpdateProduct) (t_update env) p1 w0 of
                      (Inl e, w1) \<Rightarrow> (Inl e, w1)
                    | (Inr _, w1) \<Rightarrow>
                        if statusChanged then handleStatusChange env cid p1 result w1
                        else (Inr (), w1)))))"

text \<open>
  Two readings of one check used to describe a whole tick: the record the check hands
  to the store when the provider has answered and the store accepts the write, and the
  upstream requests the check issues.
\<close>

definition writeBack ::
  "InventoryProviderFactory \<Rightarrow> check_env \<Rightarrow> MonitoredProduct \<Rightarrow> MonitoredProduct option" where
  "writeBack factory env p =
     (case getProvider factory (retailer p) of
        None \<Rightarrow> None
      | Some provider \<Rightarrow>
          (case fst (checkInventory provider (upstream_of env) (t_provider env) (sku p)
                       (storeLocations p)) of
             Inl e \<Rightarrow> None
           | Inr result \<Rightarrow>
               if rejecting env UpdateProduct = None
               then Some ((refreshedProduct p result (t_now env))\<lparr> updatedAt := t_update env \<rparr>)
               else None))"

definition requestsOf ::
  "InventoryProviderFactory \<Rightarrow> check_env \<Rightarrow> MonitoredProduct \<Rightarrow> request_log" where
  "requestsOf factory env p =
     (case getProvider factory (retailer p) of
        None \<Rightarrow> []
      | Some provider \<Rightarrow>
          snd (checkInventory provider (upstream_of env) (t_provider env) (sku p)
                 (storeLocations p)))"

text \<open>
  \<open>Promise.allSettled\<close> over the checks: every check is run and its outcome recorded,
  fulfilled (\<open>Inr\<close>) or rejected (\<open>Inl\<close>). The checks are taken one after the other in
  the order of the list, each on the state the previous one left.
\<close>

fun allSettled ::
  "('p \<Rightarrow> 'w \<Rightarrow> (error + unit) \<times> 'w) \<Rightarrow> 'p list \<Rightarrow> 'w \<Rightarrow> (error + unit) list \<times> 'w" where
  "allSettled check [] w = ([], w)"
| "allSettled check (p # ps) w =
     (case check p w of
        (r, w1) \<Rightarrow> (case allSettled check ps w1 of (rs, w2) \<Rightarrow> (r # rs, w2)))"

definition fulfilled :: "error + unit \<Rightarrow> bool" where
  "fulfilled r = (case r of Inl _ \<Rightarrow> False | Inr _ \<Rightarrow> True)"

definition rejected :: "error + unit \<Rightarrow> bool" where
  "rejected r = (case r of Inl _ \<Rightarrow> True | Inr _ \<Rightarrow> False)"

record monitor_process_env =
  COSMOS_ENDPOINT :: "jsstring option"
  SERVICE_BUS_NAMESPACE :: "jsstring option"
  BESTBUY_API_KEY :: "jsstring option"

definition getCosmosClient :: "jsstring option \<Rightarrow> error + unit" where
  "getCosmosClient cosmosEndpoint =
     (if \<not> truthy cosmosEndpoint
      then Inl (ConfigError (ascii ''COSMOS_ENDPOINT environment variable is required''))
      else Inr ())"

definition getServiceBusMessenger :: "jsstring option \<Rightarrow> error + unit" where
  "getServiceBusMessenger namespace =
     (if \<not> truthy namespace
      then Inl (ConfigError (ascii ''SERVICE_BUS_NAMESPACE environment variable is required''))
      else Inr ())"

definition getActiveProducts :: "error option \<Rightarrow> world \<Rightarrow> error + MonitoredProduct list" where
  "getActiveProducts rejects w =
     (case rejects of
        Some e \<Rightarrow> Inl e
      | None \<Rightarrow> Inr (filter isActive (products_container w)))"

text \<open>
  The factory a tick builds: Best Buy configured with the API key of the environment
  (\<open>''\<close> when unset) and a rate limit of 5 requests per second.
\<close>

definition monitorProviderFactory :: "monitor_process_env \<Rightarrow> InventoryProviderFactory" where
  "monitorProviderFactory penv =
     create [bestbuy \<mapsto>
               \<lparr> apiKey = (case BESTBUY_API_KEY penv of None \<Rightarrow> [] | Some k \<Rightarrow> k),
                 rateLimit = Some \<lparr> requestsPerSecond = 5, requestsPerDay = None \<rparr> \<rparr>]"

record tick_env =
  process_env :: monitor_process_env
  correlationUuid :: jsstring
  query_rejects :: "error option"
  check_env_of :: "MonitoredProduct \<Rightarrow> check_env"

text \<open>What a completed tick logs: the settled results and the two counts.\<close>

record tick_summary =
  results :: "(error + unit) list"
  succeeded :: nat
  failed :: nat
  failures :: "(jsstring \<times> error) list"

definition loggedFailures :: "MonitoredProduct list \<Rightarrow> (error + unit) list \<Rightarrow> (jsstring \<times> error) list" where
  "loggedFailures ps rs =
     concat (map (\<lambda>(p, r). case r of Inl e \<Rightarrow> [(sku p, e)] | Inr _ \<Rightarrow> []) (zip ps rs))"

text \<open>
  One timer tick. \<open>Inl\<close> is the rethrown error of the outer \<open>try\<close>; \<open>Inr None\<close> is the
  early return on an empty product list; \<open>Inr (Some s)\<close> a completed batch.
\<close>

definition inventoryMonitor :: "tick_env \<Rightarrow> world \<Rightarrow> (error + tick_summary option) \<times> world" where
  "inventoryMonitor tenv w =
     (case getCosmosClient (COSMOS_ENDPOINT (process_env tenv)) of
        Inl e \<Rightarrow> (Inl e, w)
      | Inr _ \<Rightarrow>
     (case getServiceBusMessenger (SERVICE_BUS_NAMESPACE (process_env tenv)) of
        Inl e \<Rightarrow> (Inl e, w)
      | Inr _ \<Rightarrow>
     (case getActiveProducts (query_rejects tenv) w of
        Inl e \<Rightarrow> (Inl e, w)
      | Inr products \<Rightarrow>
          if length products = 0 then (Inr None, w)
          else
            (let providerFactory = monitorProviderFactory (process_env tenv)
             in (case allSettled
                        (\<lambda>p. checkProductInventory providerFactory (check_env_of tenv p)
                                (correlationUuid tenv) p)
                        products w of
                   (rs, w1) \<Rightarrow>
                     (Inr (Some \<lparr> results = rs,
                                  succeeded = length (filter fulfilled rs),
                                  failed = length (filter rejected rs),
                                  failures = loggedFailures products rs \<rparr>),
                      w1))))))"

section \<open>Notification dispatcher (notification-sender)\<close>

text \<open>
  A point read of Cosmos DB answers with the resource (possibly none) or fails with
  an error that may carry a status code.
\<close>

datatype 'a read_reply = Resource "'a option" | ReadFailed "nat option" jsstring

definition getUserPreferences :: "UserPreferences read_reply \<Rightarrow> error + UserPreferences option" where
  "getUserPreferences reply =
     (case reply of
        Resource r \<Rightarrow> Inr r
      | ReadFailed code m \<Rightarrow> if code = Some 404 then Inr None else Inl (ExternalFailure m))"

record sender_env =
  sender_cosmos_endpoint :: "jsstring option"
  preferences_reply :: "UserPreferences read_reply"
  sms_env :: sms_process_env
  acs_send :: acs
  t_result :: timestamp

definition failedResult :: "NotificationRequest \<Rightarrow> Channel \<Rightarrow> error \<Rightarrow> timestamp \<Rightarrow> NotificationResult" where
  "failedResult message c e t =
     \<lparr> nr_requestId = requestId message, success = False, channel = c, nr_error = Some e,
       nr_timestamp = t \<rparr>"

definition succeededResult :: "NotificationRequest \<Rightarrow> Channel \<Rightarrow> timestamp \<Rightarrow> NotificationResult" where
  "succeededResult message c t =
     \<lparr> nr_requestId = requestId message, success = True, channel = c, nr_error = None,
       nr_timestamp = t \<rparr>"

text \<open>
  \<open>sendSmsNotification\<close>: \<open>getSmsService()\<close> is called before the \<open>try\<close>, so a
  constructor error leaves the function (\<open>Inl\<close>); everything thrown by the send itself
  is turned into a failed result. Reading \<open>result.successful\<close> of an \<open>undefined\<close>
  result is a TypeError, caught like the others.
\<close>

definition sendSmsNotification ::
  "sender_env \<Rightarrow> NotificationRequest \<Rightarrow> jsstring
     \<Rightarrow> (error + NotificationResult) \<times> SmsSendRequest list" where
  "sendSmsNotification senv message phone =
     (case SmsNotificationService_new (sms_env senv) of
        Inl e \<Rightarrow> (Inl e, [])
      | Inr smsService \<Rightarrow>
          (let event = triggerEvent message;
               location = map_option es_storeName
                            (find es_available (ea_stores (availability event)));
               smsText = formatAlertMessage (ep_name (product event)) (ep_retailer (product event))
                           (ep_addToCartUrl (product event)) location
           in (case sendSms smsService (acs_send senv) phone smsText of
                 (Inl e, calls) \<Rightarrow> (Inr (failedResult message sms e (t_result senv)), calls)
               | (Inr None, calls) \<Rightarrow>
                   (Inr (failedResult message sms TypeError (t_result senv)), calls)
               | (Inr (Some result), calls) \<Rightarrow>
                   if successful result
                   then (Inr (succeededResult message sms (t_result senv)), calls)
                   else (Inr (failedResult message sms (SmsDeliveryFailed (errorMessage result))
                                (t_result senv)), calls))))"

text \<open>The push sender is a placeholder: one successful result per subscription.\<close>

definition sendPushNotifications ::
  "sender_env \<Rightarrow> NotificationRequest \<Rightarrow> PushSubscription list \<Rightarrow> NotificationResult list" where
  "sendPushNotifications senv message subs =
     map (\<lambda>subscription. succeededResult message push (t_result senv)) subs"

text \<open>One turn of the loop over the requested channels, with its inner \<open>try/catch\<close>.\<close>

definition processChannel ::
  "sender_env \<Rightarrow> NotificationRequest \<Rightarrow> UserPreferences \<Rightarrow> Channel
     \<Rightarrow> NotificationResult list \<times> SmsSendRequest list" where
  "processChannel senv message preferences c =
     (case c of
        sms \<Rightarrow>
          if sms_enabled (pref_sms (notifications preferences))
             \<and> truthy (phoneNumber (pref_sms (notifications preferences)))
          then (case sendSmsNotification senv message
                       (the (phoneNumber (pref_sms (notifications preferences)))) of
                  (Inr smsResult, calls) \<Rightarrow> ([smsResult], calls)
                | (Inl e, calls) \<Rightarrow> ([failedResult message c e (t_result senv)], calls))
          else ([], [])
      | push \<Rightarrow>
          if push_enabled (pref_push (notifications preferences))
             \<and> length (subscriptions (pref_push (notifications preferences))) > 0
          then (sendPushNotifications senv message
                  (subscriptions (pref_push (notifications preferences))), [])
          else ([], [])
      | other_channel _ \<Rightarrow> ([], []))"

text \<open>
  The guards of the two branches: a channel is attempted when it is enabled and has a
  target (a non-empty phone number, at least one subscription).
\<close>

definition channelAttempted :: "UserPreferences \<Rightarrow> Channel \<Rightarrow> bool" where
  "channelAttempted preferences c =
     (case c of
        sms \<Rightarrow> sms_enabled (pref_sms (notifications preferences))
                 \<and> truthy (phoneNumber (pref_sms (notifications preferences)))
      | push \<Rightarrow> push_enabled (pref_push (notifications preferences))
                  \<and> length (subscriptions (pref_push (notifications preferences))) > 0
      | other_channel _ \<Rightarrow> False)"

fun processChannels ::
  "sender_env \<Rightarrow> NotificationRequest \<Rightarrow> UserPreferences \<Rightarrow> Channel list
     \<Rightarrow> NotificationResult list \<times> SmsSendRequest list" where
  "processChannels senv message preferences [] = ([], [])"
| "processChannels senv message preferences (c # cs) =
     (case processChannel senv message preferences c of
        (rs, calls) \<Rightarrow>
          (case processChannels senv message preferences cs of
             (rs', calls') \<Rightarrow> (rs @ rs', calls @ calls')))"

text \<open>
  What handling one delivered message yields: whether the handler returned (\<open>Inr\<close>,
  the transport completes the message) or threw (\<open>Inl\<close>, the transport redelivers),
  the per-channel results collected, and the SMS requests handed to the external client.
\<close>

record dispatch =
  outcome :: "error + unit"
  collected :: "NotificationResult list"
  sms_calls :: "SmsSendRequest list"

definition notificationSender :: "sender_env \<Rightarrow> NotificationRequest \<Rightarrow> dispatch" where
  "notificationSender senv message =
     (case getCosmosClient (sender_cosmos_endpoint senv) of
        Inl e \<Rightarrow> \<lparr> outcome = Inl e, collected = [], sms_calls = [] \<rparr>
      | Inr _ \<Rightarrow>
     (case getUserPreferences (preferences_reply senv) of
        Inl e \<Rightarrow> \<lparr> outcome = Inl e, collected = [], sms_calls = [] \<rparr>
      | Inr None \<Rightarrow> \<lparr> outcome = Inr (), collected = [], sms_calls = [] \<rparr>
      | Inr (Some preferences) \<Rightarrow>
          (case processChannels senv message preferences (channels message) of
             (rs, calls) \<Rightarrow>
               (let successfulCount = length (filter success rs)
                in if length rs > 0 \<and> successfulCount = 0
                   then \<lparr> outcome = Inl (AllDeliveriesFailed (map nr_error rs)),
                          collected = rs, sms_calls = calls \<rparr>
                   else \<lparr> outcome = Inr (), collected = rs, sms_calls = calls \<rparr>))))"

text \<open>The shape of the notification requests the poll worker builds.\<close>

definition poll_request :: "NotificationRequest \<Rightarrow> bool" where
  "poll_request n = (channels n = [sms] \<and> attemptCount n = 0 \<and> maxAttempts n = 3)"

section \<open>Concrete inputs used to exercise the definitions\<close>

definition fx_sku :: jsstring where
  "fx_sku = ascii ''6418599''"

definition fx_status :: "bool \<Rightarrow> InventoryStatus" where
  "fx_status b =
     \<lparr> online = \<lparr> available = b, quantity = None, lastKnownAvailable = None \<rparr>, stores = [] \<rparr>"

definition fx_product :: "bool \<Rightarrow> MonitoredProduct" where
  "fx_product b =
     \<lparr> id = ascii ''p-1'', retailer = bestbuy, sku = fx_sku, name = ascii ''Console'',
       isActive = True, priority = high, storeLocations = None,
       currentStatus = fx_status b, lastCheckedAt = 1000, lastStatusChangeAt = Some 1000,
       imageUrl = None, productUrl = getProductUrl fx_sku,
       addToCartUrl = getAddToCartUrl fx_sku, createdAt = 0, updatedAt = 1000 \<rparr>"

definition fx_unknown_product :: MonitoredProduct where
  "fx_unknown_product = (fx_product False)\<lparr> id := ascii ''p-2'', sku := ascii ''X'' \<rparr>"

text \<open>An upstream that knows every SKU except \<open>X\<close> and reports online availability \<open>b\<close>.\<close>

definition fx_upstream :: "bool \<Rightarrow> upstream" where
  "fx_upstream b =
     \<lparr> productsEndpoint =
         (\<lambda>s. if s = ascii ''X'' then HttpError 404
               else HttpOk \<lparr> bb_products = Some [\<lparr> bb_name = ascii ''Console'',
                                                    bb_image = ascii ''https://img.example/c.jpg'',
                                                    onlineAvailability = b \<rparr>],
                             bb_total = 1 \<rparr>),
       storesEndpoint = (\<lambda>s ids. HttpOk \<lparr> bb_stores = None \<rparr>) \<rparr>"

definition fx_no_rejection :: "external_call \<Rightarrow> error option" where
  "fx_no_rejection c = None"

definition fx_history_down :: "external_call \<Rightarrow> error option" where
  "fx_history_down c =
     (if c = AddHistoryEntry then Some (ExternalFailure (ascii ''Service Unavailable''))
      else None)"

definition fx_env :: "bool \<Rightarrow> (external_call \<Rightarrow> error option) \<Rightarrow> check_env" where
  "fx_env b rej =
     \<lparr> upstream_of = fx_upstream b, t_provider = 5000, t_now = 5001, t_update = 5002,
       historyUuid = ascii ''h-1'', eventUuid = ascii ''e-1'', requestUuid = ascii ''r-1'',
       rejecting = rej \<rparr>"

definition fx_config :: InventoryProviderConfig where
  "fx_config = \<lparr> apiKey = ascii ''key'',
                 rateLimit = Some \<lparr> requestsPerSecond = 1, requestsPerDay = None \<rparr> \<rparr>"

definition fx_factory :: InventoryProviderFactory where
  "fx_factory = create [bestbuy \<mapsto> fx_config]"

definition fx_world :: "bool \<Rightarrow> world" where
  "fx_world b =
     \<lparr> products_container = [fx_unknown_product, fx_product b],
       history_container =
         (if b then [\<lparr> h_id = ascii ''h-0'', h_productId = ascii ''p-1'', h_eventType = in_stock,
                        h_timestamp = 1000, h_retailer = bestbuy, h_sku = fx_sku,
                        h_online = True, h_stores = [], durationInStockMs = None,
                        ttl = Some 7776000 \<rparr>]
          else []),
       inventory_events = [], notifications_queue = [], upstream_log = [] \<rparr>"

definition fx_tick_env :: tick_env where
  "fx_tick_env =
     \<lparr> process_env = \<lparr> COSMOS_ENDPOINT = Some (ascii ''https://db.example''),
                       SERVICE_BUS_NAMESPACE = Some (ascii ''bus''),
                       BESTBUY_API_KEY = Some (ascii ''key'') \<rparr>,
       correlationUuid = ascii ''c-1'',
       query_rejects = None,
       check_env_of = (\<lambda>p. fx_env True fx_no_rejection) \<rparr>"

definition fx_event :: InventoryChangeEvent where
  "fx_event = newChangeEvent (ascii ''e-1'') (ascii ''c-1'') (fx_product False)
                \<lparr> res_status = fx_status True, res_productUrl = getProductUrl fx_sku,
                  res_addToCartUrl = getAddToCartUrl fx_sku, res_imageUrl = None,
                  res_productName = None \<rparr> 5001"

definition fx_message :: NotificationRequest where
  "fx_message = newNotificationRequest (ascii ''r-1'') (ascii ''c-1'') fx_event 5001"

definition fx_preferences :: UserPreferences where
  "fx_preferences =
     \<lparr> up_id = ascii ''default'',
       notifications =
         \<lparr> pref_sms = \<lparr> sms_enabled = True, phoneNumber = Some (ascii ''+15550100'') \<rparr>,
           pref_push = \<lparr> push_enabled = False, subscriptions = [] \<rparr> \<rparr> \<rparr>"

definition fx_sms_env :: "jsstring option \<Rightarrow> sms_process_env" where
  "fx_sms_env fromNo =
     \<lparr> ACS_ENDPOINT = Some (ascii ''https://acs.example''), ACS_SMS_FROM_NUMBER = fromNo,
       ACS_CONNECTION_STRING = None \<rparr>"

definition fx_acs :: "bool \<Rightarrow> acs" where
  "fx_acs ok = (\<lambda>request.
     Inr [\<lparr> successful = ok, messageId = (if ok then Some (ascii ''m-1'') else None),
            errorMessage = (if ok then None else Some (ascii ''Invalid sender'')) \<rparr>])"

definition fx_sender_env :: "UserPreferences read_reply \<Rightarrow> bool \<Rightarrow> sender_env" where
  "fx_sender_env reply ok =
     \<lparr> sender_cosmos_endpoint = Some (ascii ''https://db.example''),
       preferences_reply = reply,
       sms_env = fx_sms_env (Some (ascii ''+15550199'')),
       acs_send = fx_acs ok,
       t_result = 6000 \<rparr>"

definition fx_result :: "bool \<Rightarrow> InventoryCheckResult" where
  "fx_result b =
     \<lparr> res_status = \<lparr> online = \<lparr> available = b, quantity = None,
                                   lastKnownAvailable = (if b then Some 5000 else None) \<rparr>,
                       stores = [] \<rparr>,
       res_productUrl = getProductUrl fx_sku,
       res_addToCartUrl = getAddToCartUrl fx_sku,
       res_imageUrl = Some (ascii ''https://img.example/c.jpg''),
       res_productName = Some (ascii ''Console'') \<rparr>"

section \<open>Properties of the SMS sender\<close>

lemma length_banner: "length banner = 11"
  by (simp add: banner_def ascii_def)

lemma formatAlertMessage_shape:
  "formatAlertMessage productName r cartUrl location =
     banner @ locationText location @ ascii ''!\<newline>''
       @ (if int (length productName) > nameBudget cartUrl location
          then take (nat (nameBudget cartUrl location - 3)) productName @ ascii ''...''
          else productName)
       @ ascii ''\<newline>'' @ cartUrl"
  by (simp add: formatAlertMessage_def Let_def nameBudget_def substring0_def
      length_banner ascii_def algebra_simps)

lemma length_formatAlertMessage:
  "int (length (formatAlertMessage productName r cartUrl location)) =
     14 + int (length (locationText location)) + int (length cartUrl)
       + (if int (length productName) > nameBudget cartUrl location
          then int (min (length productName) (nat (nameBudget cartUrl location - 3))) + 3
          else int (length productName))"
  by (simp add: formatAlertMessage_shape length_banner ascii_def)

text \<open>
  C6 (amended). The message is the banner with the location text, the product name and
  the add-to-cart URL, which is always kept in full at the end. A product name longer
  than its budget of \<open>145 - |location text| - |URL|\<close> code units is cut to the first
  \<open>budget - 3\<close> code units followed by an ellipsis. Whenever the location text and
  the URL together take at most 143 code units, the message has at most 160 code units.
\<close>

theorem formatAlertMessage_within_budget:
  "(length (locationText location) + length cartUrl \<le> 143 \<longrightarrow>
      length (formatAlertMessage productName r cartUrl location) \<le> 160)
   \<and> formatAlertMessage productName r cartUrl location =
       banner @ locationText location @ ascii ''!\<newline>''
         @ (if int (length productName) > nameBudget cartUrl location
            then take (nat (nameBudget cartUrl location - 3)) productName @ ascii ''...''
            else productName)
         @ ascii ''\<newline>'' @ cartUrl"
proof (intro conjI impI)
  assume short: "length (locationText location) + length cartUrl \<le> 143"
  have "int (length (formatAlertMessage productName r cartUrl location)) \<le> 160"
    using short unfolding length_formatAlertMessage nameBudget_def by (simp split: if_splits)
  then show "length (formatAlertMessage productName r cartUrl location) \<le> 160"
    by simp
next
  show "formatAlertMessage productName r cartUrl location =
       banner @ locationText location @ ascii ''!\<newline>''
         @ (if int (length productName) > nameBudget cartUrl location
            then take (nat (nameBudget cartUrl location - 3)) productName @ ascii ''...''
            else productName)
         @ ascii ''\<newline>'' @ cartUrl"
    by (rule formatAlertMessage_shape)
qed

theorem formatAlertMessage_within_budget_witness:
  "length (locationText None) + length (ascii ''https://api.bestbuy.com/click/-/6418599/cart'') \<le> 143
   \<and> length (formatAlertMessage (replicate 200 65) bestbuy
         (ascii ''https://api.bestbuy.com/click/-/6418599/cart'') None) \<le> 160"
  using formatAlertMessage_within_budget
    [of None "ascii ''https://api.bestbuy.com/click/-/6418599/cart''" "replicate 200 65" bestbuy,
     THEN conjunct1]
  by (simp add: locationText_def truthy_def ascii_def)

text \<open>
  C6 as stated fails: the URL is never shortened, so a long URL alone pushes the
  message past 160 code units.
\<close>

theorem formatAlertMessage_exceeds_160:
  "\<not> length (formatAlertMessage (ascii ''Widget'') bestbuy (replicate 150 97) None) \<le> 160"
  by (simp add: formatAlertMessage_shape nameBudget_def locationText_def truthy_def
      length_banner ascii_def)

section \<open>Properties of the state and history store\<close>

lemmas store_defs = getLatestHistoryEntry_def addHistoryEntry_def
  sendInventoryEvent_def queueNotification_def updateProduct_def

lemma latestOf_None: "latestOf hs = None \<longleftrightarrow> hs = []"
  by (induction hs) (auto split: option.splits)

lemma latestOf_mem: "latestOf hs = Some g \<Longrightarrow> g \<in> set hs"
  by (induction hs arbitrary: g) (auto split: option.splits if_splits)

lemma latestOf_greatest:
  "latestOf hs = Some g \<Longrightarrow> h \<in> set hs \<Longrightarrow> h_timestamp h \<le> h_timestamp g"
proof (induction hs arbitrary: g)
  case Nil
  then show ?case by simp
next
  case (Cons a hs)
  show ?case
  proof (cases "latestOf hs")
    case None
    then have "hs = []" by (simp add: latestOf_None)
    with Cons.prems None show ?thesis by simp
  next
    case (Some b)
    with Cons.prems Cons.IH [OF Some] show ?thesis
      by (auto split: if_splits)
  qed
qed

section \<open>Properties of one product check\<close>

lemma handleStatusChange_products:
  "products_container (snd (handleStatusChange env cid p result w)) = products_container w"
  by (auto simp: handleStatusChange_def store_defs Let_def
      split: option.splits sum.splits prod.splits)

lemma handleStatusChange_fulfilled:
  assumes "fst (handleStatusChange env cid p result w) = Inr ()"
  shows "inventory_events (snd (handleStatusChange env cid p result w)) =
           inventory_events w @ [newChangeEvent (eventUuid env) cid p result (t_now env)]
       \<and> notifications_queue (snd (handleStatusChange env cid p result w)) =
           (if isAvailable (res_status result)
            then notifications_queue w @
                  [newNotificationRequest (requestUuid env) cid
                     (newChangeEvent (eventUuid env) cid p result (t_now env)) (t_now env)]
            else notifications_queue w)"
  using assms
  by (auto simp: handleStatusChange_def store_defs Let_def
      split: option.splits sum.splits prod.splits if_splits)

lemma handleStatusChange_at_most_one:
  "(inventory_events (snd (handleStatusChange env cid p result w)) = inventory_events w
      \<and> notifications_queue (snd (handleStatusChange env cid p result w)) = notifications_queue w)
   \<or> (inventory_events (snd (handleStatusChange env cid p result w)) =
           inventory_events w @ [newChangeEvent (eventUuid env) cid p result (t_now env)]
      \<and> (notifications_queue (snd (handleStatusChange env cid p result w)) = notifications_queue w
         \<or> (isAvailable (res_status result) \<and>
             notifications_queue (snd (handleStatusChange env cid p result w)) =
             notifications_queue w @
                  [newNotificationRequest (requestUuid env) cid
                     (newChangeEvent (eventUuid env) cid p result (t_now env)) (t_now env)])))"
  by (auto simp: handleStatusChange_def store_defs Let_def
      split: option.splits sum.splits prod.splits if_splits)

lemma handleStatusChange_history:
  "history_container (snd (handleStatusChange env cid p result w)) = history_container w
   \<or> history_container (snd (handleStatusChange env cid p result w)) =
       history_container w @
        [newHistoryEntry (historyUuid env) p result (t_now env)
           (latestOf (filter (\<lambda>h. h_productId h = id p) (history_container w)))]"
  by (auto simp: handleStatusChange_def store_defs Let_def
      split: option.splits sum.splits prod.splits if_splits)

lemma checkProductInventory_outcome_independent:
  "fst (checkProductInventory f env cid p w) = fst (checkProductInventory f env cid p w')"
  by (auto simp: checkProductInventory_def handleStatusChange_def store_defs Let_def
      split: option.splits sum.splits prod.splits)

text \<open>
  What a check does once the provider has answered with \<open>result\<close>: the write-back of
  the refreshed product and, on a changed verdict, the status-change branch.
\<close>

lemma checkProductInventory_answered:
  assumes "getProvider factory (retailer p) = Some provider"
    and "checkInventory provider (upstream_of env) (t_provider env) (sku p) (storeLocations p)
           = (Inr result, reqs)"
  shows "checkProductInventory factory env cid p w =
     (case updateProduct (rejecting env UpdateProduct) (t_update env)
             (refreshedProduct p result (t_now env))
             (w\<lparr> upstream_log := upstream_log w @ reqs \<rparr>) of
        (Inl e, w1) \<Rightarrow> (Inl e, w1)
      | (Inr _, w1) \<Rightarrow>
          if isAvailable (currentStatus p) \<noteq> isAvailable (res_status result)
          then handleStatusChange env cid (refreshedProduct p result (t_now env)) result w1
          else (Inr (), w1))"
  using assms by (auto simp: checkProductInventory_def Let_def split: prod.splits sum.splits)

text \<open>Evaluation of the concrete inputs.\<close>

lemmas fx_defs = fx_sku_def fx_status_def fx_product_def fx_unknown_product_def fx_upstream_def
  fx_no_rejection_def fx_history_down_def fx_env_def fx_config_def fx_factory_def fx_world_def
  fx_result_def

lemmas provider_defs = create_def registerProvider_def getProvider_def BestBuyInventoryProvider_new_def
  checkInventory_def fetchProductDetails_def fetchStoreAvailability_def

lemma fx_provider: "getProvider fx_factory (retailer (fx_product b)) = Some (BestBuyInventoryProvider_new fx_config)"
  by (simp add: fx_defs provider_defs ascii_def)

lemma fx_answer:
  "checkInventory (BestBuyInventoryProvider_new fx_config) (upstream_of (fx_env b rej))
     (t_provider (fx_env b rej)) (sku (fx_product c)) (storeLocations (fx_product c))
   = (Inr (fx_result b), [(5000, ProductsRequest fx_sku)])"
  by (simp add: fx_defs provider_defs ascii_def)

lemma fx_verdicts: "isAvailable (currentStatus (fx_product c)) = c" "isAvailable (res_status (fx_result b)) = b"
  by (simp_all add: fx_defs isAvailable_def)

text \<open>
  C1 (amended). Take a product check whose provider answered and whose verdict changed.
  If the check is fulfilled (no persistence or transport call was rejected), the worker
  has published exactly one change event and has queued exactly one notification request
  if the new verdict is available, none if it is unavailable. Whatever calls are
  rejected, it publishes at most that one event and queues at most that one request,
  a request only after its event and only on a transition to available.
\<close>

theorem transition_emits_one_event:
  assumes prov: "getProvider factory (retailer p) = Some provider"
    and res: "fst (checkInventory provider (upstream_of env) (t_provider env) (sku p)
                (storeLocations p)) = Inr result"
    and changed: "isAvailable (currentStatus p) \<noteq> isAvailable (res_status result)"
  shows "(fst (checkProductInventory factory env cid p w) = Inr () \<longrightarrow>
            inventory_events (snd (checkProductInventory factory env cid p w)) =
              inventory_events w @
                [newChangeEvent (eventUuid env) cid (refreshedProduct p result (t_now env))
                   result (t_now env)]
          \<and> notifications_queue (snd (checkProductInventory factory env cid p w)) =
              (if isAvailable (res_status result)
               then notifications_queue w @
                 [newNotificationRequest (requestUuid env) cid
                    (newChangeEvent (eventUuid env) cid (refreshedProduct p result (t_now env))
                       result (t_now env)) (t_now env)]
               else notifications_queue w))
       \<and> (inventory_events (snd (checkProductInventory factory env cid p w)) = inventory_events w
            \<and> notifications_queue (snd (checkProductInventory factory env cid p w)) =
                notifications_queue w
          \<or> inventory_events (snd (checkProductInventory factory env cid p w)) =
              inventory_events w @
                [newChangeEvent (eventUuid env) cid (refreshedProduct p result (t_now env))
                   result (t_now env)]
            \<and> (notifications_queue (snd (checkProductInventory factory env cid p w)) =
                 notifications_queue w
               \<or> isAvailable (res_status result)
                 \<and> notifications_queue (snd (checkProductInventory factory env cid p w)) =
                     notifications_queue w @
                       [newNotificationRequest (requestUuid env) cid
                          (newChangeEvent (eventUuid env) cid
                             (refreshedProduct p result (t_now env)) result (t_now env))
                          (t_now env)]))"
proof -
  obtain reqs where ci: "checkInventory provider (upstream_of env) (t_provider env) (sku p)
      (storeLocations p) = (Inr result, reqs)"
    using res by (cases "checkInventory provider (upstream_of env) (t_provider env) (sku p)
      (storeLocations p)") simp
  let ?p1 = "refreshedProduct p result (t_now env)"
  let ?w0 = "w\<lparr> upstream_log := upstream_log w @ reqs \<rparr>"
  note unfold = checkProductInventory_answered [OF prov ci, of cid w]
  show ?thesis
  proof (cases "rejecting env UpdateProduct")
    case (Some e)
    then show ?thesis
      unfolding unfold by (simp add: updateProduct_def)
  next
    case None
    let ?w1 = "?w0\<lparr> products_container :=
                  replaceItem (?p1\<lparr> updatedAt := t_update env \<rparr>) (products_container ?w0) \<rparr>"
    have run: "checkProductInventory factory env cid p w = handleStatusChange env cid ?p1 result ?w1"
      unfolding unfold using None changed by (simp add: updateProduct_def)
    show ?thesis
      unfolding run
      using handleStatusChange_fulfilled [of env cid ?p1 result ?w1]
        handleStatusChange_at_most_one [of env cid ?p1 result ?w1]
      by simp
  qed
qed

text \<open>The fulfilled check of a product that comes back in stock.\<close>

theorem transition_emits_one_event_witness:
  "getProvider fx_factory (retailer (fx_product False)) = Some (BestBuyInventoryProvider_new fx_config)
   \<and> fst (checkInventory (BestBuyInventoryProvider_new fx_config)
            (upstream_of (fx_env True fx_no_rejection)) (t_provider (fx_env True fx_no_rejection))
            (sku (fx_product False)) (storeLocations (fx_product False))) = Inr (fx_result True)
   \<and> isAvailable (currentStatus (fx_product False)) \<noteq> isAvailable (res_status (fx_result True))
   \<and> fst (checkProductInventory fx_factory (fx_env True fx_no_rejection) (ascii ''c-1'')
            (fx_product False) (fx_world False)) = Inr ()
   \<and> length (inventory_events (snd (checkProductInventory fx_factory (fx_env True fx_no_rejection)
        (ascii ''c-1'') (fx_product False) (fx_world False)))) = 1
   \<and> length (notifications_queue (snd (checkProductInventory fx_factory
        (fx_env True fx_no_rejection) (ascii ''c-1'') (fx_product False) (fx_world False)))) = 1"
proof -
  have h1: "getProvider fx_factory (retailer (fx_product False))
              = Some (BestBuyInventoryProvider_new fx_config)"
    by (rule fx_provider)
  have h2: "fst (checkInventory (BestBuyInventoryProvider_new fx_config)
            (upstream_of (fx_env True fx_no_rejection)) (t_provider (fx_env True fx_no_rejection))
            (sku (fx_product False)) (storeLocations (fx_product False))) = Inr (fx_result True)"
    by (simp add: fx_answer)
  have h3: "isAvailable (currentStatus (fx_product False)) \<noteq> isAvailable (res_status (fx_result True))"
    by (simp add: fx_verdicts)
  have h4: "fst (checkProductInventory fx_factory (fx_env True fx_no_rejection) (ascii ''c-1'')
            (fx_product False) (fx_world False)) = Inr ()"
    unfolding checkProductInventory_answered [OF h1 fx_answer]
    by (simp add: updateProduct_def handleStatusChange_def store_defs fx_verdicts Let_def
        fx_env_def fx_no_rejection_def)
  show ?thesis
    using transition_emits_one_event [OF h1 h2 h3, where cid = "ascii ''c-1''" and w = "fx_world False"]
      h1 h2 h3 h4
    by (simp add: fx_verdicts fx_world_def)
qed

text \<open>
  C1 as stated fails: when the history append is rejected the check ends there, and a
  detected transition produces no event and no notification request.
\<close>

theorem transition_without_event:
  "getProvider fx_factory (retailer (fx_product False)) = Some (BestBuyInventoryProvider_new fx_config)
   \<and> fst (checkInventory (BestBuyInventoryProvider_new fx_config)
            (upstream_of (fx_env True fx_history_down)) (t_provider (fx_env True fx_history_down))
            (sku (fx_product False)) (storeLocations (fx_product False))) = Inr (fx_result True)
   \<and> \<not> isAvailable (currentStatus (fx_product False))
   \<and> isAvailable (res_status (fx_result True))
   \<and> inventory_events (snd (checkProductInventory fx_factory (fx_env True fx_history_down)
        (ascii ''c-1'') (fx_product False) (fx_world False))) = []
   \<and> notifications_queue (snd (checkProductInventory fx_factory (fx_env True fx_history_down)
        (ascii ''c-1'') (fx_product False) (fx_world False))) = []"
proof -
  have h1: "getProvider fx_factory (retailer (fx_product False))
              = Some (BestBuyInventoryProvider_new fx_config)"
    by (rule fx_provider)
  have run: "inventory_events (snd (checkProductInventory fx_factory (fx_env True fx_history_down)
        (ascii ''c-1'') (fx_product False) (fx_world False))) = []
     \<and> notifications_queue (snd (checkProductInventory fx_factory (fx_env True fx_history_down)
        (ascii ''c-1'') (fx_product False) (fx_world False))) = []"
    unfolding checkProductInventory_answered [OF h1 fx_answer]
    by (simp add: updateProduct_def handleStatusChange_def store_defs fx_verdicts Let_def
        fx_env_def fx_history_down_def fx_world_def)
  show ?thesis
    using h1 run by (simp add: fx_answer fx_verdicts)
qed

text \<open>
  C3. If the freshly observed verdict (online available or any store available) equals
  the stored verdict, the check appends no history entry, publishes no change event and
  queues no notification request.
\<close>

theorem unchanged_verdict_no_effects:
  assumes "getProvider factory (retailer p) = Some provider"
    and "fst (checkInventory provider (upstream_of env) (t_provider env) (sku p)
           (storeLocations p)) = Inr result"
    and "isAvailable (res_status result) = isAvailable (currentStatus p)"
  shows "history_container (snd (checkProductInventory factory env cid p w)) = history_container w
       \<and> inventory_events (snd (checkProductInventory factory env cid p w)) = inventory_events w
       \<and> notifications_queue (snd (checkProductInventory factory env cid p w)) =
           notifications_queue w"
  using assms
  by (auto simp: checkProductInventory_def updateProduct_def Let_def
      split: option.splits sum.splits prod.splits)

text \<open>A product that was in stock and still is.\<close>

theorem unchanged_verdict_no_effects_witness:
  "getProvider fx_factory (retailer (fx_product True)) = Some (BestBuyInventoryProvider_new fx_config)
   \<and> fst (checkInventory (BestBuyInventoryProvider_new fx_config)
            (upstream_of (fx_env True fx_no_rejection)) (t_provider (fx_env True fx_no_rejection))
            (sku (fx_product True)) (storeLocations (fx_product True))) = Inr (fx_result True)
   \<and> isAvailable (res_status (fx_result True)) = isAvailable (currentStatus (fx_product True))
   \<and> history_container (snd (checkProductInventory fx_factory (fx_env True fx_no_rejection)
        (ascii ''c-1'') (fx_product True) (fx_world True))) = history_container (fx_world True)
   \<and> inventory_events (snd (checkProductInventory fx_factory (fx_env True fx_no_rejection)
        (ascii ''c-1'') (fx_product True) (fx_world True))) = []
   \<and> notifications_queue (snd (checkProductInventory fx_factory (fx_env True fx_no_rejection)
        (ascii ''c-1'') (fx_product True) (fx_world True))) = []"
proof -
  have h1: "getProvider fx_factory (retailer (fx_product True))
              = Some (BestBuyInventoryProvider_new fx_config)"
    by (rule fx_provider)
  have h2: "fst (checkInventory (BestBuyInventoryProvider_new fx_config)
            (upstream_of (fx_env True fx_no_rejection)) (t_provider (fx_env True fx_no_rejection))
            (sku (fx_product True)) (storeLocations (fx_product True))) = Inr (fx_result True)"
    by (simp add: fx_answer)
  have h3: "isAvailable (res_status (fx_result True)) = isAvailable (currentStatus (fx_product True))"
    by (simp add: fx_verdicts)
  show ?thesis
    using unchanged_verdict_no_effects [OF h1 h2 h3, where cid = "ascii ''c-1''" and w = "fx_world True"]
      h1 h2 h3
    by (simp add: fx_world_def)
qed

text \<open>
  C2. A check appends at most one history entry. The entry's \<open>durationInStockMs\<close> is
  present exactly when the entry is \<open>out_of_stock\<close> and the most recent prior entry of
  the same product (one with the greatest timestamp) is \<open>in_stock\<close>, and then it is the
  difference of the two timestamps; it is absent for an \<open>in_stock\<close> entry and when the
  product has no prior entry.
\<close>

theorem history_entry_duration:
  "history_container (snd (checkProductInventory factory env cid p w)) = history_container w
   \<or> (\<exists>h. history_container (snd (checkProductInventory factory env cid p w)) =
              history_container w @ [h]
          \<and> h_productId h = id p
          \<and> durationInStockMs h =
              (case latestOf (filter (\<lambda>g. h_productId g = id p) (history_container w)) of
                 None \<Rightarrow> None
               | Some prev \<Rightarrow>
                   if h_eventType h = out_of_stock \<and> h_eventType prev = in_stock
                   then Some (h_timestamp h - h_timestamp prev)
                   else None)
          \<and> (case latestOf (filter (\<lambda>g. h_productId g = id p) (history_container w)) of
                 None \<Rightarrow> \<forall>g \<in> set (history_container w). h_productId g \<noteq> id p
               | Some prev \<Rightarrow>
                   prev \<in> set (history_container w) \<and> h_productId prev = id p
                   \<and> (\<forall>g \<in> set (history_container w).
                         h_productId g = id p \<longrightarrow> h_timestamp g \<le> h_timestamp prev)))"
proof -
  let ?prior = "latestOf (filter (\<lambda>g. h_productId g = id p) (history_container w))"
  have prior: "(case ?prior of
                 None \<Rightarrow> \<forall>g \<in> set (history_container w). h_productId g \<noteq> id p
               | Some prev \<Rightarrow>
                   prev \<in> set (history_container w) \<and> h_productId prev = id p
                   \<and> (\<forall>g \<in> set (history_container w).
                         h_productId g = id p \<longrightarrow> h_timestamp g \<le> h_timestamp prev))"
  proof (cases ?prior)
    case None
    then have "filter (\<lambda>g. h_productId g = id p) (history_container w) = []"
      by (simp add: latestOf_None)
    then show ?thesis using None by (auto simp: filter_empty_conv)
  next
    case (Some prev)
    have "prev \<in> set (filter (\<lambda>g. h_productId g = id p) (history_container w))"
      using latestOf_mem [OF Some] .
    moreover have "\<forall>g \<in> set (history_container w).
        h_productId g = id p \<longrightarrow> h_timestamp g \<le> h_timestamp prev"
      using latestOf_greatest [OF Some] by simp
    ultimately show ?thesis using Some by simp
  qed
  have entry: "\<And>u q r t. id q = id p \<Longrightarrow>
      h_productId (newHistoryEntry u q r t ?prior) = id p
      \<and> durationInStockMs (newHistoryEntry u q r t ?prior) =
          (case ?prior of
             None \<Rightarrow> None
           | Some prev \<Rightarrow>
               if h_eventType (newHistoryEntry u q r t ?prior) = out_of_stock
                    \<and> h_eventType prev = in_stock
               then Some (h_timestamp (newHistoryEntry u q r t ?prior) - h_timestamp prev)
               else None)"
    by (auto simp: newHistoryEntry_def Let_def split: option.splits)
  have idp: "\<And>r t. id (refreshedProduct p r t) = id p"
    by (simp add: refreshedProduct_def Let_def)
  show ?thesis
  proof (cases "getProvider factory (retailer p)")
    case None
    then show ?thesis by (simp add: checkProductInventory_def)
  next
    case (Some provider)
    obtain r reqs where ci: "checkInventory provider (upstream_of env) (t_provider env) (sku p)
        (storeLocations p) = (r, reqs)"
      by (cases "checkInventory provider (upstream_of env) (t_provider env) (sku p)
        (storeLocations p)")
    show ?thesis
    proof (cases r)
      case (Inl e)
      with Some ci show ?thesis by (simp add: checkProductInventory_def)
    next
      case (Inr result)
      let ?p1 = "refreshedProduct p result (t_now env)"
      let ?w0 = "w\<lparr> upstream_log := upstream_log w @ reqs \<rparr>"
      let ?w1 = "?w0\<lparr> products_container :=
                  replaceItem (?p1\<lparr> updatedAt := t_update env \<rparr>) (products_container ?w0) \<rparr>"
      note unfold = checkProductInventory_answered [OF Some ci [unfolded Inr], of cid w]
      show ?thesis
      proof (cases "rejecting env UpdateProduct = None
                      \<and> isAvailable (currentStatus p) \<noteq> isAvailable (res_status result)")
        case False
        then show ?thesis
          unfolding unfold by (auto simp: updateProduct_def split: option.splits)
      next
        case True
        then have run: "checkProductInventory factory env cid p w =
            handleStatusChange env cid ?p1 result ?w1"
          unfolding unfold by (simp add: updateProduct_def)
        have hist: "history_container ?w1 = history_container w" by simp
        show ?thesis
          unfolding run
          using handleStatusChange_history [of env cid ?p1 result ?w1]
            entry [OF idp, of "historyUuid env" result "t_now env" result "t_now env"] prior
          by (auto simp: idp)
      qed
    qed
  qed
qed

lemma fx_status_verdict: "isAvailable (fx_status b) = b"
  by (simp add: fx_status_def isAvailable_def)

text \<open>
  A product in stock since 1000 ms is found out of stock at 5001 ms: the appended entry
  carries a duration of 4001 ms.
\<close>

theorem history_entry_duration_witness:
  "\<exists>h. history_container (snd (checkProductInventory fx_factory (fx_env False fx_no_rejection)
            (ascii ''c-1'') (fx_product True) (fx_world True))) =
          history_container (fx_world True) @ [h]
       \<and> h_eventType h = out_of_stock
       \<and> latestOf (filter (\<lambda>g. h_productId g = id (fx_product True))
                     (history_container (fx_world True))) \<noteq> None
       \<and> durationInStockMs h = Some 4001"
proof -
  have h1: "getProvider fx_factory (retailer (fx_product True))
              = Some (BestBuyInventoryProvider_new fx_config)"
    by (rule fx_provider)
  have run: "history_container (snd (checkProductInventory fx_factory (fx_env False fx_no_rejection)
            (ascii ''c-1'') (fx_product True) (fx_world True))) =
          history_container (fx_world True) @
            [newHistoryEntry (ascii ''h-1'') (fx_product True) (fx_result False) 5001
               (Some (hd (history_container (fx_world True))))]"
    unfolding checkProductInventory_answered [OF h1 fx_answer]
    by (simp add: updateProduct_def handleStatusChange_def store_defs fx_verdicts Let_def
        fx_env_def fx_no_rejection_def fx_world_def refreshedProduct_def newHistoryEntry_def
        fx_product_def fx_status_verdict ascii_def)
  show ?thesis
    using history_entry_duration [of fx_factory "fx_env False fx_no_rejection" "ascii ''c-1''"
        "fx_product True" "fx_world True"] run
    by (simp add: newHistoryEntry_def fx_verdicts fx_world_def fx_product_def fx_status_verdict
        ascii_def)
qed

text \<open>
  C5. Once the provider has answered and the store accepts the write (as in every
  fulfilled check of a product with a provider), the check changes the products
  container by exactly one replacement of the product's record. The written
  record carries the observed status, the poll time as \<open>lastCheckedAt\<close>, the refreshed
  product and add-to-cart URLs, the refreshed image URL when the provider gave one (the
  previous one otherwise), and \<open>lastStatusChangeAt\<close> set to the poll time if the verdict
  changed and left at its previous value if it did not.
\<close>

theorem product_write_back:
  assumes prov: "getProvider factory (retailer p) = Some provider"
    and res: "fst (checkInventory provider (upstream_of env) (t_provider env) (sku p)
                (storeLocations p)) = Inr result"
    and accepted: "rejecting env UpdateProduct = None"
  shows "products_container (snd (checkProductInventory factory env cid p w)) =
           replaceItem
             (p\<lparr> currentStatus := res_status result,
                 lastCheckedAt := t_now env,
                 lastStatusChangeAt :=
                   (if isAvailable (currentStatus p) \<noteq> isAvailable (res_status result)
                    then Some (t_now env) else lastStatusChangeAt p),
                 productUrl := res_productUrl result,
                 addToCartUrl := res_addToCartUrl result,
                 imageUrl := (if truthy (res_imageUrl result) then res_imageUrl result
                              else imageUrl p),
                 updatedAt := t_update env \<rparr>)
             (products_container w)"
proof -
  obtain reqs where ci: "checkInventory provider (upstream_of env) (t_provider env) (sku p)
      (storeLocations p) = (Inr result, reqs)"
    using res by (cases "checkInventory provider (upstream_of env) (t_provider env) (sku p)
      (storeLocations p)") simp
  show ?thesis
    unfolding checkProductInventory_answered [OF prov ci, of cid w]
    using accepted
    by (simp add: updateProduct_def handleStatusChange_products refreshedProduct_def Let_def)
qed

text \<open>The record of a product that comes back in stock; the other record is untouched.\<close>

theorem product_write_back_witness:
  "getProvider fx_factory (retailer (fx_product False)) = Some (BestBuyInventoryProvider_new fx_config)
   \<and> fst (checkInventory (BestBuyInventoryProvider_new fx_config)
            (upstream_of (fx_env True fx_no_rejection)) (t_provider (fx_env True fx_no_rejection))
            (sku (fx_product False)) (storeLocations (fx_product False))) = Inr (fx_result True)
   \<and> rejecting (fx_env True fx_no_rejection) UpdateProduct = None
   \<and> map lastStatusChangeAt (products_container (snd (checkProductInventory fx_factory
        (fx_env True fx_no_rejection) (ascii ''c-1'') (fx_product False) (fx_world False))))
      = [Some 1000, Some 5001]
   \<and> map lastCheckedAt (products_container (snd (checkProductInventory fx_factory
        (fx_env True fx_no_rejection) (ascii ''c-1'') (fx_product False) (fx_world False))))
      = [1000, 5001]"
proof -
  have h1: "getProvider fx_factory (retailer (fx_product False))
              = Some (BestBuyInventoryProvider_new fx_config)"
    by (rule fx_provider)
  have h2: "fst (checkInventory (BestBuyInventoryProvider_new fx_config)
            (upstream_of (fx_env True fx_no_rejection)) (t_provider (fx_env True fx_no_rejection))
            (sku (fx_product False)) (storeLocations (fx_product False))) = Inr (fx_result True)"
    by (simp add: fx_answer)
  have h3: "rejecting (fx_env True fx_no_rejection) UpdateProduct = None"
    by (simp add: fx_env_def fx_no_rejection_def)
  note wb = product_write_back [OF h1 h2 h3, where cid = "ascii ''c-1''" and w = "fx_world False"]
  show ?thesis
    unfolding wb using h1 h2 h3
    by (simp add: fx_verdicts fx_world_def replaceItem_def fx_product_def fx_unknown_product_def
        fx_env_def fx_status_verdict ascii_def)
qed

section \<open>Properties of the queued notification requests\<close>

lemma checkProductInventory_queue:
  "\<exists>ns. notifications_queue (snd (checkProductInventory f env cid p w)) =
           notifications_queue w @ ns \<and> list_all poll_request ns"
proof (cases "getProvider f (retailer p)")
  case None
  then show ?thesis by (simp add: checkProductInventory_def)
next
  case (Some provider)
  obtain r reqs where ci: "checkInventory provider (upstream_of env) (t_provider env) (sku p)
      (storeLocations p) = (r, reqs)"
    by (cases "checkInventory provider (upstream_of env) (t_provider env) (sku p)
      (storeLocations p)")
  show ?thesis
  proof (cases r)
    case (Inl e)
    with Some ci show ?thesis by (simp add: checkProductInventory_def)
  next
    case (Inr result)
    let ?p1 = "refreshedProduct p result (t_now env)"
    let ?w0 = "w\<lparr> upstream_log := upstream_log w @ reqs \<rparr>"
    let ?w1 = "?w0\<lparr> products_container :=
                replaceItem (?p1\<lparr> updatedAt := t_update env \<rparr>) (products_container ?w0) \<rparr>"
    note unfold = checkProductInventory_answered [OF Some ci [unfolded Inr], of cid w]
    show ?thesis
    proof (cases "rejecting env UpdateProduct = None
                    \<and> isAvailable (currentStatus p) \<noteq> isAvailable (res_status result)")
      case False
      then show ?thesis
        unfolding unfold by (auto simp: updateProduct_def split: option.splits)
    next
      case True
      then have run: "checkProductInventory f env cid p w =
          handleStatusChange env cid ?p1 result ?w1"
        unfolding unfold by (simp add: updateProduct_def)
      have good: "poll_request (newNotificationRequest u c e t)" for u c e t
        by (simp add: poll_request_def newNotificationRequest_def)
      show ?thesis
        unfolding run
        using handleStatusChange_at_most_one [of env cid ?p1 result ?w1] good
        by auto
    qed
  qed
qed

lemma allSettled_queue:
  assumes "\<And>p w. \<exists>ns. notifications_queue (snd (check p w)) = notifications_queue w @ ns
                        \<and> list_all poll_request ns"
  shows "\<exists>ns. notifications_queue (snd (allSettled check ps w)) = notifications_queue w @ ns
              \<and> list_all poll_request ns"
proof (induction ps arbitrary: w)
  case Nil
  show ?case by simp
next
  case (Cons p ps)
  obtain r w1 where c: "check p w = (r, w1)" by (cases "check p w")
  obtain rs w2 where a: "allSettled check ps w1 = (rs, w2)" by (cases "allSettled check ps w1")
  from assms [of p w] c obtain ns1 where
    n1: "notifications_queue w1 = notifications_queue w @ ns1" "list_all poll_request ns1"
    by auto
  from Cons.IH [of w1] a obtain ns2 where
    n2: "notifications_queue w2 = notifications_queue w1 @ ns2" "list_all poll_request ns2"
    by auto
  have "notifications_queue w2 = notifications_queue w @ (ns1 @ ns2)"
    using n1 n2 by simp
  moreover have "list_all poll_request (ns1 @ ns2)" using n1 n2 by simp
  ultimately show ?case using c a by auto
qed

lemma processChannel_sms_only:
  "r \<in> set (fst (processChannel senv m prefs sms)) \<Longrightarrow> channel r = sms"
  by (auto simp: processChannel_def sendSmsNotification_def sendSms_def failedResult_def
      succeededResult_def Let_def split: if_splits sum.splits prod.splits option.splits list.splits)

lemma notificationSender_collected:
  "collected (notificationSender senv m) =
     (case getCosmosClient (sender_cosmos_endpoint senv) of
        Inl e \<Rightarrow> []
      | Inr _ \<Rightarrow>
          (case getUserPreferences (preferences_reply senv) of
             Inl e \<Rightarrow> []
           | Inr None \<Rightarrow> []
           | Inr (Some prefs) \<Rightarrow> fst (processChannels senv m prefs (channels m))))"
  by (auto simp: notificationSender_def Let_def split: sum.splits option.splits prod.splits)

lemma notificationSender_sms_only:
  assumes "channels m = [sms]" and "r \<in> set (collected (notificationSender senv m))"
  shows "channel r = sms"
proof -
  have one: "fst (processChannels senv m prefs [sms]) = fst (processChannel senv m prefs sms)"
    for prefs
    by (simp split: prod.splits)
  from assms obtain prefs where "r \<in> set (fst (processChannel senv m prefs sms))"
    unfolding notificationSender_collected
    by (auto simp: one split: sum.splits option.splits)
  then show ?thesis by (rule processChannel_sms_only)
qed

text \<open>
  C10. Whatever a tick does, the notification requests it adds to the queue all have
  channels exactly \<open>[sms]\<close>, attempt count 0 and maximum attempts 3; and dispatching
  such a request never yields a push result, whatever the user preferences.
\<close>

theorem queued_requests_sms_only:
  "\<exists>ns. notifications_queue (snd (inventoryMonitor tenv w)) = notifications_queue w @ ns
       \<and> (\<forall>n \<in> set ns. channels n = [sms] \<and> attemptCount n = 0 \<and> maxAttempts n = 3
             \<and> (\<forall>senv. \<forall>r \<in> set (collected (notificationSender senv n)). channel r \<noteq> push))"
proof -
  let ?f = "monitorProviderFactory (process_env tenv)"
  let ?check = "\<lambda>p. checkProductInventory ?f (check_env_of tenv p) (correlationUuid tenv) p"
  let ?ps = "filter isActive (products_container w)"
  have "notifications_queue (snd (inventoryMonitor tenv w)) = notifications_queue w
        \<or> snd (inventoryMonitor tenv w) = snd (allSettled ?check ?ps w)"
    by (auto simp: inventoryMonitor_def getActiveProducts_def Let_def
        split: sum.splits option.splits prod.splits)
  moreover have "\<exists>ns. notifications_queue (snd (allSettled ?check ?ps w)) =
                   notifications_queue w @ ns \<and> list_all poll_request ns"
    by (rule allSettled_queue) (rule checkProductInventory_queue)
  ultimately have "\<exists>ns. notifications_queue (snd (inventoryMonitor tenv w)) =
      notifications_queue w @ ns \<and> list_all poll_request ns"
  proof (elim disjE)
    assume "notifications_queue (snd (inventoryMonitor tenv w)) = notifications_queue w"
    then have "notifications_queue (snd (inventoryMonitor tenv w)) = notifications_queue w @ []
        \<and> list_all poll_request []"
      by simp
    then show ?thesis by blast
  next
    assume "snd (inventoryMonitor tenv w) = snd (allSettled ?check ?ps w)"
      and "\<exists>ns. notifications_queue (snd (allSettled ?check ?ps w)) =
                   notifications_queue w @ ns \<and> list_all poll_request ns"
    then show ?thesis by simp
  qed
  then obtain ns where ns: "notifications_queue (snd (inventoryMonitor tenv w)) =
      notifications_queue w @ ns" "list_all poll_request ns"
    by blast
  have "\<forall>n \<in> set ns. channels n = [sms] \<and> attemptCount n = 0 \<and> maxAttempts n = 3
             \<and> (\<forall>senv. \<forall>r \<in> set (collected (notificationSender senv n)). channel r \<noteq> push)"
  proof
    fix n assume "n \<in> set ns"
    with ns(2) have p: "poll_request n" by (simp add: list_all_iff)
    then have c: "channels n = [sms]" by (simp add: poll_request_def)
    have "\<forall>senv. \<forall>r \<in> set (collected (notificationSender senv n)). channel r \<noteq> push"
      using notificationSender_sms_only [OF c] by auto
    with p show "channels n = [sms] \<and> attemptCount n = 0 \<and> maxAttempts n = 3
             \<and> (\<forall>senv. \<forall>r \<in> set (collected (notificationSender senv n)). channel r \<noteq> push)"
      by (simp add: poll_request_def)
  qed
  with ns(1) show ?thesis by blast
qed

section \<open>Properties of a poll tick\<close>

text \<open>A tick over two products, one of them unknown to the retailer.\<close>

lemma fx_tick_factory:
  "monitorProviderFactory (process_env fx_tick_env)
     bestbuy
   = Some \<lparr> bb_apiKey = ascii ''key'',
            bb_rateLimit = \<lparr> requestsPerSecond = 5, requestsPerDay = None \<rparr> \<rparr>"
  by (simp add: monitorProviderFactory_def fx_tick_env_def provider_defs ascii_def)

lemma fx_unknown_check:
  "getProvider f bestbuy = Some provider \<Longrightarrow>
   checkProductInventory f (fx_env b rej) cid fx_unknown_product w =
     (Inl (ProductNotFound (ascii ''X'')),
      w\<lparr> upstream_log := upstream_log w @ [(5000, ProductsRequest (ascii ''X''))] \<rparr>)"
  by (simp add: checkProductInventory_def fx_defs checkInventory_def fetchProductDetails_def
      ascii_def)

lemma fx_known_answer:
  "checkInventory provider (upstream_of (fx_env b rej))
     (t_provider (fx_env b rej)) (sku (fx_product c)) (storeLocations (fx_product c))
   = (Inr (fx_result b), [(5000, ProductsRequest fx_sku)])"
  by (simp add: fx_defs checkInventory_def fetchProductDetails_def ascii_def)

lemma fx_restock_check:
  assumes "getProvider f bestbuy = Some provider"
  shows "fst (checkProductInventory f (fx_env True fx_no_rejection) cid (fx_product False) w)
           = Inr ()
       \<and> notifications_queue (snd (checkProductInventory f (fx_env True fx_no_rejection) cid
            (fx_product False) w)) =
          notifications_queue w @
            [newNotificationRequest (ascii ''r-1'') cid
               (newChangeEvent (ascii ''e-1'') cid
                  (refreshedProduct (fx_product False) (fx_result True) 5001)
                  (fx_result True) 5001) 5001]"
proof -
  have p: "getProvider f (retailer (fx_product False)) = Some provider"
    using assms by (simp add: fx_product_def)
  show ?thesis
    unfolding checkProductInventory_answered [OF p fx_known_answer]
    by (simp add: updateProduct_def handleStatusChange_def store_defs fx_verdicts Let_def
        fx_env_def fx_no_rejection_def)
qed

lemma fx_tick_run:
  "fst (inventoryMonitor fx_tick_env (fx_world False)) =
     Inr (Some \<lparr> results = [Inl (ProductNotFound (ascii ''X'')), Inr ()],
                 succeeded = 1, failed = 1,
                 failures = [(ascii ''X'', ProductNotFound (ascii ''X''))] \<rparr>)
   \<and> map channels (notifications_queue (snd (inventoryMonitor fx_tick_env (fx_world False))))
       = [[sms]]"
proof -
  let ?f = "monitorProviderFactory (process_env fx_tick_env)"
  have g: "getProvider ?f bestbuy = Some \<lparr> bb_apiKey = ascii ''key'',
            bb_rateLimit = \<lparr> requestsPerSecond = 5, requestsPerDay = None \<rparr> \<rparr>"
    unfolding getProvider_def by (rule fx_tick_factory)
  have ps: "filter isActive (products_container (fx_world False))
              = [fx_unknown_product, fx_product False]"
    by (simp add: fx_world_def fx_unknown_product_def fx_product_def)
  have env: "check_env_of fx_tick_env p = fx_env True fx_no_rejection"
      "correlationUuid fx_tick_env = ascii ''c-1''" for p
    by (simp_all add: fx_tick_env_def)
  obtain w1 where w1: "checkProductInventory ?f (fx_env True fx_no_rejection) (ascii ''c-1'')
      fx_unknown_product (fx_world False) = (Inl (ProductNotFound (ascii ''X'')), w1)"
    "notifications_queue w1 = []"
    using fx_unknown_check [OF g, of True fx_no_rejection "ascii ''c-1''" "fx_world False"]
    by (simp add: fx_world_def)
  obtain w2 where w2: "checkProductInventory ?f (fx_env True fx_no_rejection) (ascii ''c-1'')
      (fx_product False) w1 = (Inr (), w2)" "map channels (notifications_queue w2) = [[sms]]"
    using fx_restock_check [OF g, of "ascii ''c-1''" w1] w1(2)
    by (cases "checkProductInventory ?f (fx_env True fx_no_rejection) (ascii ''c-1'')
      (fx_product False) w1") (simp add: newNotificationRequest_def)
  have settled: "allSettled (\<lambda>p. checkProductInventory ?f (check_env_of fx_tick_env p)
                     (correlationUuid fx_tick_env) p)
                   [fx_unknown_product, fx_product False] (fx_world False)
                 = ([Inl (ProductNotFound (ascii ''X'')), Inr ()], w2)"
    by (simp add: env w1 w2)
  have init: "getCosmosClient (COSMOS_ENDPOINT (process_env fx_tick_env)) = Inr ()"
    "getServiceBusMessenger (SERVICE_BUS_NAMESPACE (process_env fx_tick_env)) = Inr ()"
    "getActiveProducts (query_rejects fx_tick_env) (fx_world False)
       = Inr [fx_unknown_product, fx_product False]"
    by (simp_all add: getCosmosClient_def getServiceBusMessenger_def getActiveProducts_def
        fx_tick_env_def truthy_def ascii_def ps)
  have sku: "sku fx_unknown_product = ascii ''X''"
    by (simp add: fx_unknown_product_def)
  show ?thesis
    unfolding inventoryMonitor_def init
    by (simp add: env w1 w2 fulfilled_def rejected_def loggedFailures_def sku Let_def)
qed

lemma fulfilled_rejected_count:
  "length (filter fulfilled rs) + length (filter rejected rs) = length rs"
  by (induction rs) (auto simp: fulfilled_def rejected_def split: sum.splits)

lemma allSettled_results:
  assumes "\<And>p w w'. fst (check p w) = fst (check p w')"
  shows "fst (allSettled check ps w) = map (\<lambda>p. fst (check p w0)) ps"
proof (induction ps arbitrary: w)
  case Nil
  show ?case by simp
next
  case (Cons p ps)
  obtain r w1 where c: "check p w = (r, w1)" by (cases "check p w")
  obtain rs w2 where a: "allSettled check ps w1 = (rs, w2)" by (cases "allSettled check ps w1")
  have "r = fst (check p w0)" using c assms [of p w w0] by simp
  moreover have "rs = map (\<lambda>p. fst (check p w0)) ps" using Cons.IH [of w1] a by simp
  ultimately show ?case using c a by simp
qed

lemma checkProductInventory_not_found:
  assumes "getProvider f (retailer p) = Some provider"
    and "productsEndpoint (upstream_of env) (sku p) = HttpError 404"
  shows "fst (checkProductInventory f env cid p w) = Inl (ProductNotFound (sku p))"
  using assms
  by (simp add: checkProductInventory_def checkInventory_def fetchProductDetails_def)

text \<open>What one check adds to each part of the state, and what a whole batch adds.\<close>

lemma handleStatusChange_upstream_log:
  "upstream_log (snd (handleStatusChange env cid p result w)) = upstream_log w"
  by (auto simp: handleStatusChange_def store_defs Let_def
      split: option.splits sum.splits prod.splits)

lemma checkProductInventory_upstream_log:
  "upstream_log (snd (checkProductInventory f env cid p w)) = upstream_log w @ requestsOf f env p"
  by (auto simp: checkProductInventory_def requestsOf_def updateProduct_def
      handleStatusChange_upstream_log Let_def split: option.splits sum.splits prod.splits)

lemma checkProductInventory_products:
  "products_container (snd (checkProductInventory f env cid p w)) =
     (case writeBack f env p of
        None \<Rightarrow> products_container w
      | Some r \<Rightarrow> replaceItem r (products_container w))"
  by (auto simp: checkProductInventory_def writeBack_def updateProduct_def
      handleStatusChange_products Let_def split: option.splits sum.splits prod.splits)

lemma writeBack_id: "writeBack f env p = Some r \<Longrightarrow> id r = id p"
  by (auto simp: writeBack_def refreshedProduct_def Let_def
      split: option.splits sum.splits if_splits)

lemma checkProductInventory_events_own:
  "inventory_events (snd (checkProductInventory f env cid p w)) =
     inventory_events w @
       drop (length (inventory_events w0))
         (inventory_events (snd (checkProductInventory f env cid p w0)))"
  by (auto simp: checkProductInventory_def handleStatusChange_def store_defs Let_def
      split: option.splits sum.splits prod.splits)

lemma checkProductInventory_queue_own:
  "notifications_queue (snd (checkProductInventory f env cid p w)) =
     notifications_queue w @
       drop (length (notifications_queue w0))
         (notifications_queue (snd (checkProductInventory f env cid p w0)))"
  by (auto simp: checkProductInventory_def handleStatusChange_def store_defs Let_def
      split: option.splits sum.splits prod.splits)

lemma checkProductInventory_history_own:
  assumes "filter (\<lambda>h. h_productId h = id p) (history_container w) =
           filter (\<lambda>h. h_productId h = id p) (history_container w0)"
  shows "history_container (snd (checkProductInventory f env cid p w)) =
     history_container w @
       drop (length (history_container w0))
         (history_container (snd (checkProductInventory f env cid p w0)))"
  using assms
  by (auto simp: checkProductInventory_def handleStatusChange_def store_defs Let_def
      refreshedProduct_def split: option.splits sum.splits prod.splits)

lemma checkProductInventory_history_ids:
  "h \<in> set (drop (length (history_container w0))
              (history_container (snd (checkProductInventory f env cid p w0))))
   \<Longrightarrow> h_productId h = id p"
  by (auto simp: checkProductInventory_def handleStatusChange_def store_defs Let_def
      refreshedProduct_def newHistoryEntry_def split: option.splits sum.splits prod.splits if_splits)


lemma allSettled_appends:
  assumes "\<And>p w. sel (snd (check p w)) = sel w @ contrib p"
  shows "sel (snd (allSettled check ps w)) = sel w @ concat (map contrib ps)"
proof (induction ps arbitrary: w)
  case Nil
  show ?case by simp
next
  case (Cons p ps)
  obtain r w1 where c: "check p w = (r, w1)" by (cases "check p w")
  obtain rs w2 where a: "allSettled check ps w1 = (rs, w2)" by (cases "allSettled check ps w1")
  have "sel w1 = sel w @ contrib p" using assms [of p w] c by simp
  moreover have "sel w2 = sel w1 @ concat (map contrib ps)" using Cons.IH [of w1] a by simp
  ultimately show ?case using c a by simp
qed

lemma allSettled_history:
  assumes own: "\<And>p w. filter (\<lambda>h. h_productId h = id p) (history_container w) =
                     filter (\<lambda>h. h_productId h = id p) (history_container w0)
                   \<Longrightarrow> history_container (snd (check p w)) = history_container w @ contrib p"
    and ids: "\<And>p h. h \<in> set (contrib p) \<Longrightarrow> h_productId h = id p"
  shows "distinct (map id ps) \<Longrightarrow>
         history_container w = history_container w0 @ extra \<Longrightarrow>
         \<forall>h \<in> set extra. h_productId h \<notin> id ` set ps \<Longrightarrow>
         history_container (snd (allSettled check ps w)) =
           history_container w @ concat (map contrib ps)"
proof (induction ps arbitrary: w extra)
  case Nil
  show ?case by simp
next
  case (Cons p ps)
  obtain r w1 where c: "check p w = (r, w1)" by (cases "check p w")
  obtain rs w2 where a: "allSettled check ps w1 = (rs, w2)" by (cases "allSettled check ps w1")
  have "filter (\<lambda>h. h_productId h = id p) extra = []"
    using Cons.prems(3) by (auto simp: filter_empty_conv)
  then have same: "filter (\<lambda>h. h_productId h = id p) (history_container w) =
                   filter (\<lambda>h. h_productId h = id p) (history_container w0)"
    using Cons.prems(2) by simp
  have w1: "history_container w1 = history_container w @ contrib p"
    using own [OF same] c by simp
  then have w1': "history_container w1 = history_container w0 @ (extra @ contrib p)"
    using Cons.prems(2) by simp
  have fresh: "\<forall>h \<in> set (extra @ contrib p). h_productId h \<notin> id ` set ps"
    using Cons.prems(1,3) ids [of _ p] by auto
  have d: "distinct (map id ps)" using Cons.prems(1) by simp
  have "history_container w2 = history_container w1 @ concat (map contrib ps)"
    using Cons.IH [OF d w1' fresh] a by simp
  with w1 show ?case using c a by simp
qed

lemma allSettled_products:
  assumes step: "\<And>p w. products_container (snd (check p w)) =
                   (case wb p of None \<Rightarrow> products_container w
                    | Some r \<Rightarrow> replaceItem r (products_container w))"
    and ids: "\<And>p r. wb p = Some r \<Longrightarrow> id r = id p"
  shows "distinct (map id ps) \<Longrightarrow>
         products_container (snd (allSettled check ps w)) =
           map (\<lambda>q. case find (\<lambda>p. id p = id q) ps of
                       None \<Rightarrow> q
                     | Some p \<Rightarrow> (case wb p of None \<Rightarrow> q | Some r \<Rightarrow> r))
               (products_container w)"
proof (induction ps arbitrary: w)
  case Nil
  show ?case by simp
next
  case (Cons p ps)
  obtain r w1 where c: "check p w = (r, w1)" by (cases "check p w")
  obtain rs w2 where a: "allSettled check ps w1 = (rs, w2)" by (cases "allSettled check ps w1")
  have d: "distinct (map id ps)" and fresh: "id p \<notin> id ` set ps"
    using Cons.prems by simp_all
  have nofind: "find (\<lambda>x. id x = id q) ps = None" if "id q = id p" for q
    using fresh that by (auto simp: find_None_iff image_iff)
  have w2: "products_container w2 =
           map (\<lambda>q. case find (\<lambda>p. id p = id q) ps of
                       None \<Rightarrow> q
                     | Some p \<Rightarrow> (case wb p of None \<Rightarrow> q | Some r \<Rightarrow> r))
               (products_container w1)"
    using Cons.IH [OF d, of w1] a by simp
  show ?case
  proof (cases "wb p")
    case None
    then have "products_container w1 = products_container w"
      using step [of p w] c by simp
    with w2 None show ?thesis
      using c a by (auto simp: nofind)
  next
    case (Some r')
    then have "products_container w1 = replaceItem r' (products_container w)"
      using step [of p w] c by simp
    moreover have "id r' = id p" using ids [OF Some] .
    ultimately show ?thesis
      using w2 Some c a by (auto simp: replaceItem_def nofind)
  qed
qed

lemma find_by_id:
  assumes "distinct (map id xs)" and "q \<in> set xs"
  shows "find (\<lambda>p. id p = id q) (filter isActive xs) = (if isActive q then Some q else None)"
  using assms
proof (induction xs)
  case Nil
  then show ?case by simp
next
  case (Cons x xs)
  show ?case
  proof (cases "q = x")
    case True
    have "find (\<lambda>p. id p = id x) (filter isActive xs) = None"
      using Cons.prems(1) by (auto simp: find_None_iff image_iff)
    with True show ?thesis by simp
  next
    case False
    with Cons.prems have q: "q \<in> set xs" and ne: "id x \<noteq> id q" by auto
    with Cons.IH Cons.prems(1) show ?thesis by simp
  qed
qed

text \<open>
  C9. Take a tick whose clients initialise and whose product query answers. With no
  active product it returns at once, without error and without touching anything. With
  active products it completes with a summary, whatever the checks did: one settled
  result per product, each equal to the outcome of that product's own check, and counts
  of succeeded and failed checks that add up to the number of products. Every active
  product is processed, whatever happened to the others: the upstream requests of every
  product's check are issued; the events and notification requests the tick adds are,
  product by product, those the product's own check adds when run alone from the state
  the tick started in; and, product ids being unique in the container, so are the history
  entries, and every active product's stored record is the one its own check writes back
  (unchanged when its check wrote nothing), the inactive records being untouched. A
  product whose lookup answers 404 is rejected with \<open>ProductNotFound\<close>.
\<close>

theorem tick_isolates_failures:
  assumes "truthy (COSMOS_ENDPOINT (process_env tenv))"
    and "truthy (SERVICE_BUS_NAMESPACE (process_env tenv))"
    and "query_rejects tenv = None"
  shows "(filter isActive (products_container w) = [] \<longrightarrow>
            inventoryMonitor tenv w = (Inr None, w))
    \<and> (filter isActive (products_container w) \<noteq> [] \<longrightarrow>
         (\<exists>s. fst (inventoryMonitor tenv w) = Inr (Some s)
            \<and> results s =
                map (\<lambda>p. fst (checkProductInventory (monitorProviderFactory (process_env tenv))
                                (check_env_of tenv p) (correlationUuid tenv) p w))
                    (filter isActive (products_container w))
            \<and> succeeded s = length (filter fulfilled (results s))
            \<and> failed s = length (filter rejected (results s))
            \<and> succeeded s + failed s = length (filter isActive (products_container w))))
    \<and> upstream_log (snd (inventoryMonitor tenv w)) =
        upstream_log w @
          concat (map (\<lambda>p. requestsOf (monitorProviderFactory (process_env tenv))
                             (check_env_of tenv p) p)
                      (filter isActive (products_container w)))
    \<and> inventory_events (snd (inventoryMonitor tenv w)) =
        inventory_events w @
          concat (map (\<lambda>p. drop (length (inventory_events w))
                             (inventory_events (snd (checkProductInventory
                                (monitorProviderFactory (process_env tenv))
                                (check_env_of tenv p) (correlationUuid tenv) p w))))
                      (filter isActive (products_container w)))
    \<and> notifications_queue (snd (inventoryMonitor tenv w)) =
        notifications_queue w @
          concat (map (\<lambda>p. drop (length (notifications_queue w))
                             (notifications_queue (snd (checkProductInventory
                                (monitorProviderFactory (process_env tenv))
                                (check_env_of tenv p) (correlationUuid tenv) p w))))
                      (filter isActive (products_container w)))
    \<and> (distinct (map id (products_container w)) \<longrightarrow>
          products_container (snd (inventoryMonitor tenv w)) =
            map (\<lambda>q. if isActive q
                      then (case writeBack (monitorProviderFactory (process_env tenv))
                                   (check_env_of tenv q) q of
                              None \<Rightarrow> q | Some r \<Rightarrow> r)
                      else q)
                (products_container w)
        \<and> history_container (snd (inventoryMonitor tenv w)) =
            history_container w @
              concat (map (\<lambda>p. drop (length (history_container w))
                                 (history_container (snd (checkProductInventory
                                    (monitorProviderFactory (process_env tenv))
                                    (check_env_of tenv p) (correlationUuid tenv) p w))))
                          (filter isActive (products_container w))))
    \<and> (\<forall>p provider.
          getProvider (monitorProviderFactory (process_env tenv)) (retailer p) = Some provider
          \<and> productsEndpoint (upstream_of (check_env_of tenv p)) (sku p) = HttpError 404 \<longrightarrow>
          fst (checkProductInventory (monitorProviderFactory (process_env tenv))
                 (check_env_of tenv p) (correlationUuid tenv) p w) = Inl (ProductNotFound (sku p)))"
proof -
  let ?ps = "filter isActive (products_container w)"
  let ?f = "monitorProviderFactory (process_env tenv)"
  let ?check = "\<lambda>p. checkProductInventory ?f (check_env_of tenv p) (correlationUuid tenv) p"
  obtain rs w1 where a: "allSettled ?check ?ps w = (rs, w1)"
    by (cases "allSettled ?check ?ps w")
  have empty: "inventoryMonitor tenv w = (Inr None, w)" if "?ps = []"
    using assms that
    by (simp add: inventoryMonitor_def getCosmosClient_def getServiceBusMessenger_def
        getActiveProducts_def)
  have full: "inventoryMonitor tenv w =
      (Inr (Some \<lparr> results = rs, succeeded = length (filter fulfilled rs),
                   failed = length (filter rejected rs), failures = loggedFailures ?ps rs \<rparr>),
       w1)" if "?ps \<noteq> []"
    using assms that a
    by (simp add: inventoryMonitor_def getCosmosClient_def getServiceBusMessenger_def
        getActiveProducts_def Let_def)
  have world: "snd (inventoryMonitor tenv w) = snd (allSettled ?check ?ps w)"
  proof (cases "?ps = []")
    case True
    then show ?thesis using empty by simp
  next
    case False
    then show ?thesis using full a by simp
  qed
  have "fst (allSettled ?check ?ps w) = map (\<lambda>p. fst (?check p w)) ?ps"
    by (rule allSettled_results) (rule checkProductInventory_outcome_independent)
  then have rs: "rs = map (\<lambda>p. fst (?check p w)) ?ps"
    using a by simp
  have summary: "?ps \<noteq> [] \<longrightarrow>
         (\<exists>s. fst (inventoryMonitor tenv w) = Inr (Some s)
            \<and> results s = map (\<lambda>p. fst (?check p w)) ?ps
            \<and> succeeded s = length (filter fulfilled (results s))
            \<and> failed s = length (filter rejected (results s))
            \<and> succeeded s + failed s = length ?ps)"
    using full rs fulfilled_rejected_count [of rs] by simp
  have log: "upstream_log (snd (inventoryMonitor tenv w)) =
        upstream_log w @ concat (map (\<lambda>p. requestsOf ?f (check_env_of tenv p) p) ?ps)"
    unfolding world
    by (rule allSettled_appends) (rule checkProductInventory_upstream_log)
  have events: "inventory_events (snd (inventoryMonitor tenv w)) =
        inventory_events w @
          concat (map (\<lambda>p. drop (length (inventory_events w))
                             (inventory_events (snd (?check p w)))) ?ps)"
    unfolding world
    by (rule allSettled_appends) (rule checkProductInventory_events_own)
  have queue: "notifications_queue (snd (inventoryMonitor tenv w)) =
        notifications_queue w @
          concat (map (\<lambda>p. drop (length (notifications_queue w))
                             (notifications_queue (snd (?check p w)))) ?ps)"
    unfolding world
    by (rule allSettled_appends) (rule checkProductInventory_queue_own)
  have stored: "products_container (snd (inventoryMonitor tenv w)) =
            map (\<lambda>q. if isActive q
                      then (case writeBack ?f (check_env_of tenv q) q of
                              None \<Rightarrow> q | Some r \<Rightarrow> r)
                      else q)
                (products_container w)
        \<and> history_container (snd (inventoryMonitor tenv w)) =
            history_container w @
              concat (map (\<lambda>p. drop (length (history_container w))
                                 (history_container (snd (?check p w)))) ?ps)"
    if d: "distinct (map id (products_container w))"
  proof
    have dps: "distinct (map id ?ps)"
      using d by (rule distinct_map_filter)
    have "products_container (snd (allSettled ?check ?ps w)) =
           map (\<lambda>q. case find (\<lambda>p. id p = id q) ?ps of
                       None \<Rightarrow> q
                     | Some p \<Rightarrow> (case writeBack ?f (check_env_of tenv p) p of
                                    None \<Rightarrow> q | Some r \<Rightarrow> r))
               (products_container w)"
      using dps
      by (rule allSettled_products [where wb = "\<lambda>p. writeBack ?f (check_env_of tenv p) p", rotated 2])
        (simp_all add: checkProductInventory_products writeBack_id)
    also have "\<dots> = map (\<lambda>q. if isActive q
                      then (case writeBack ?f (check_env_of tenv q) q of
                              None \<Rightarrow> q | Some r \<Rightarrow> r)
                      else q)
                (products_container w)"
      by (rule map_cong) (simp_all add: find_by_id [OF d])
    finally show "products_container (snd (inventoryMonitor tenv w)) =
            map (\<lambda>q. if isActive q
                      then (case writeBack ?f (check_env_of tenv q) q of
                              None \<Rightarrow> q | Some r \<Rightarrow> r)
                      else q)
                (products_container w)"
      unfolding world .
    have "history_container (snd (allSettled ?check ?ps w)) =
            history_container w @
              concat (map (\<lambda>p. drop (length (history_container w))
                                 (history_container (snd (?check p w)))) ?ps)"
    proof (rule allSettled_history [where ?w0.0 = w and extra = "[]"])
      show "distinct (map id ?ps)" by (rule dps)
      show "history_container w = history_container w @ []" by simp
      show "\<forall>h \<in> set []. h_productId h \<notin> id ` set ?ps" by simp
    next
      fix p :: MonitoredProduct and w' :: world
      assume "filter (\<lambda>h. h_productId h = id p) (history_container w') =
              filter (\<lambda>h. h_productId h = id p) (history_container w)"
      then show "history_container (snd (?check p w')) =
          history_container w' @
            drop (length (history_container w)) (history_container (snd (?check p w)))"
        by (rule checkProductInventory_history_own)
    next
      fix p :: MonitoredProduct and h :: InventoryHistoryEntry
      assume "h \<in> set (drop (length (history_container w)) (history_container (snd (?check p w))))"
      then show "h_productId h = id p"
        by (rule checkProductInventory_history_ids)
    qed
    then show "history_container (snd (inventoryMonitor tenv w)) =
            history_container w @
              concat (map (\<lambda>p. drop (length (history_container w))
                                 (history_container (snd (?check p w)))) ?ps)"
      unfolding world .
  qed
  have notfound: "\<forall>p provider.
          getProvider ?f (retailer p) = Some provider
          \<and> productsEndpoint (upstream_of (check_env_of tenv p)) (sku p) = HttpError 404 \<longrightarrow>
          fst (?check p w) = Inl (ProductNotFound (sku p))"
    by (simp add: checkProductInventory_not_found)
  from empty summary log events queue stored notfound show ?thesis
    by blast
qed

text \<open>The readings of the two products of the example tick.\<close>

lemma fx_unknown_answer:
  "checkInventory provider (upstream_of (fx_env b rej)) (t_provider (fx_env b rej))
     (sku fx_unknown_product) (storeLocations fx_unknown_product)
   = (Inl (ProductNotFound (ascii ''X'')), [(5000, ProductsRequest (ascii ''X''))])"
  by (simp add: fx_defs checkInventory_def fetchProductDetails_def ascii_def)

lemma fx_tick_readings:
  "requestsOf (monitorProviderFactory (process_env fx_tick_env))
     (check_env_of fx_tick_env fx_unknown_product) fx_unknown_product
     = [(5000, ProductsRequest (ascii ''X''))]"
  "requestsOf (monitorProviderFactory (process_env fx_tick_env))
     (check_env_of fx_tick_env (fx_product False)) (fx_product False)
     = [(5000, ProductsRequest fx_sku)]"
  "writeBack (monitorProviderFactory (process_env fx_tick_env))
     (check_env_of fx_tick_env fx_unknown_product) fx_unknown_product = None"
  "writeBack (monitorProviderFactory (process_env fx_tick_env))
     (check_env_of fx_tick_env (fx_product False)) (fx_product False)
     = Some ((refreshedProduct (fx_product False) (fx_result True) 5001)\<lparr> updatedAt := 5002 \<rparr>)"
proof -
  have env: "check_env_of fx_tick_env p = fx_env True fx_no_rejection" for p
    by (simp add: fx_tick_env_def)
  have r: "retailer fx_unknown_product = bestbuy" "retailer (fx_product False) = bestbuy"
    by (simp_all add: fx_unknown_product_def fx_product_def)
  have g: "getProvider (monitorProviderFactory (process_env fx_tick_env)) bestbuy =
      Some \<lparr> bb_apiKey = ascii ''key'',
             bb_rateLimit = \<lparr> requestsPerSecond = 5, requestsPerDay = None \<rparr> \<rparr>"
    unfolding getProvider_def by (rule fx_tick_factory)
  have t: "t_now (fx_env True fx_no_rejection) = 5001" "t_update (fx_env True fx_no_rejection) = 5002"
    "rejecting (fx_env True fx_no_rejection) UpdateProduct = None"
    by (simp_all add: fx_env_def fx_no_rejection_def)
  show "requestsOf (monitorProviderFactory (process_env fx_tick_env))
     (check_env_of fx_tick_env fx_unknown_product) fx_unknown_product
     = [(5000, ProductsRequest (ascii ''X''))]"
    by (simp add: requestsOf_def env r g fx_unknown_answer)
  show "requestsOf (monitorProviderFactory (process_env fx_tick_env))
     (check_env_of fx_tick_env (fx_product False)) (fx_product False)
     = [(5000, ProductsRequest fx_sku)]"
    by (simp add: requestsOf_def env r g fx_known_answer)
  show "writeBack (monitorProviderFactory (process_env fx_tick_env))
     (check_env_of fx_tick_env fx_unknown_product) fx_unknown_product = None"
    by (simp add: writeBack_def env r g fx_unknown_answer)
  show "writeBack (monitorProviderFactory (process_env fx_tick_env))
     (check_env_of fx_tick_env (fx_product False)) (fx_product False)
     = Some ((refreshedProduct (fx_product False) (fx_result True) 5001)\<lparr> updatedAt := 5002 \<rparr>)"
    by (simp add: writeBack_def env r g fx_known_answer t)
qed

text \<open>
  The unknown product fails and the other one is still processed: one failed, one
  succeeded, both lookups issued, and the second product's refreshed record stored.
\<close>

theorem tick_isolates_failures_witness:
  "truthy (COSMOS_ENDPOINT (process_env fx_tick_env))
   \<and> truthy (SERVICE_BUS_NAMESPACE (process_env fx_tick_env))
   \<and> query_rejects fx_tick_env = None
   \<and> filter isActive (products_container (fx_world False)) \<noteq> []
   \<and> distinct (map id (products_container (fx_world False)))
   \<and> (\<exists>s. fst (inventoryMonitor fx_tick_env (fx_world False)) = Inr (Some s)
          \<and> results s = [Inl (ProductNotFound (ascii ''X'')), Inr ()]
          \<and> succeeded s = 1 \<and> failed s = 1
          \<and> succeeded s + failed s = length (filter isActive (products_container (fx_world False))))
   \<and> upstream_log (snd (inventoryMonitor fx_tick_env (fx_world False))) =
        [(5000, ProductsRequest (ascii ''X'')), (5000, ProductsRequest fx_sku)]
   \<and> products_container (snd (inventoryMonitor fx_tick_env (fx_world False))) =
        [fx_unknown_product,
         (refreshedProduct (fx_product False) (fx_result True) 5001)\<lparr> updatedAt := 5002 \<rparr>]"
proof -
  have h1: "truthy (COSMOS_ENDPOINT (process_env fx_tick_env))"
    by (simp add: fx_tick_env_def truthy_def ascii_def)
  have h2: "truthy (SERVICE_BUS_NAMESPACE (process_env fx_tick_env))"
    by (simp add: fx_tick_env_def truthy_def ascii_def)
  have h3: "query_rejects fx_tick_env = None"
    by (simp add: fx_tick_env_def)
  have c: "products_container (fx_world False) = [fx_unknown_product, fx_product False]"
    by (simp add: fx_world_def)
  have act: "isActive fx_unknown_product" "isActive (fx_product False)"
    by (simp_all add: fx_unknown_product_def fx_product_def)
  have ps: "filter isActive (products_container (fx_world False)) =
      [fx_unknown_product, fx_product False]"
    by (simp add: c act)
  have d: "distinct (map id (products_container (fx_world False)))"
    by (simp add: c fx_unknown_product_def fx_product_def ascii_def)
  have l0: "upstream_log (fx_world False) = []"
    by (simp add: fx_world_def)
  note T = tick_isolates_failures [OF h1 h2 h3, of "fx_world False"]
  from T ps obtain s where s: "fst (inventoryMonitor fx_tick_env (fx_world False)) = Inr (Some s)"
    "succeeded s + failed s = length (filter isActive (products_container (fx_world False)))"
    by auto
  from s(1) fx_tick_run have summary: "results s = [Inl (ProductNotFound (ascii ''X'')), Inr ()]
      \<and> succeeded s = 1 \<and> failed s = 1"
    by auto
  have log: "upstream_log (snd (inventoryMonitor fx_tick_env (fx_world False))) =
        [(5000, ProductsRequest (ascii ''X'')), (5000, ProductsRequest fx_sku)]"
    unfolding T [THEN conjunct2, THEN conjunct2, THEN conjunct1]
    by (simp add: ps l0 fx_tick_readings)
  have stored: "products_container (snd (inventoryMonitor fx_tick_env (fx_world False))) =
        [fx_unknown_product,
         (refreshedProduct (fx_product False) (fx_result True) 5001)\<lparr> updatedAt := 5002 \<rparr>]"
    unfolding T [THEN conjunct2, THEN conjunct2, THEN conjunct2, THEN conjunct2, THEN conjunct2,
        THEN conjunct1, THEN mp, OF d, THEN conjunct1]
    by (simp add: c act fx_tick_readings)
  have ne: "filter isActive (products_container (fx_world False)) \<noteq> []"
    by (simp add: ps)
  from h1 h2 h3 ne d s summary log stored show ?thesis by blast
qed

text \<open>The same tick queues one request, for the product that came back in stock.\<close>

theorem queued_requests_sms_only_witness:
  "\<exists>ns. ns \<noteq> []
       \<and> notifications_queue (snd (inventoryMonitor fx_tick_env (fx_world False))) =
           notifications_queue (fx_world False) @ ns
       \<and> (\<forall>n \<in> set ns. channels n = [sms] \<and> attemptCount n = 0 \<and> maxAttempts n = 3
             \<and> (\<forall>senv. \<forall>r \<in> set (collected (notificationSender senv n)). channel r \<noteq> push))"
proof -
  from queued_requests_sms_only [of fx_tick_env "fx_world False"]
  obtain ns where ns:
    "notifications_queue (snd (inventoryMonitor fx_tick_env (fx_world False))) =
       notifications_queue (fx_world False) @ ns"
    "\<forall>n \<in> set ns. channels n = [sms] \<and> attemptCount n = 0 \<and> maxAttempts n = 3
       \<and> (\<forall>senv. \<forall>r \<in> set (collected (notificationSender senv n)). channel r \<noteq> push)"
    by blast
  have "notifications_queue (fx_world False) = []"
    by (simp add: fx_world_def)
  with ns(1) fx_tick_run have "ns \<noteq> []" by auto
  with ns show ?thesis by blast
qed

section \<open>Properties of the notification dispatcher\<close>

lemma processChannels_results:
  "fst (processChannels senv m prefs cs) = concat (map (\<lambda>c. fst (processChannel senv m prefs c)) cs)"
  by (induction cs) (auto split: prod.splits)

lemma processChannel_attempted:
  "fst (processChannel senv m prefs c) \<noteq> [] \<longleftrightarrow> channelAttempted prefs c"
  by (cases c)
    (auto simp: processChannel_def channelAttempted_def sendPushNotifications_def
      split: prod.splits sum.splits)

text \<open>
  C4 (amended). Handling a delivered request signals failure to the transport exactly
  when the Cosmos client cannot be initialised, or the preference read fails (other than
  with not-found), or at least one result was collected and every collected result is a
  failed one. So with the preferences read (present or absent), failure is signalled if
  and only if some channel was attempted and all attempts failed; one successful
  attempt, or no attempt at all, signals success. Results are collected exactly when
  preferences were found and some requested channel is enabled and has a target.
\<close>

theorem notificationSender_failure_iff:
  "(isl (outcome (notificationSender senv m)) \<longleftrightarrow>
      isl (getCosmosClient (sender_cosmos_endpoint senv))
      \<or> isl (getUserPreferences (preferences_reply senv))
      \<or> (collected (notificationSender senv m) \<noteq> []
          \<and> (\<forall>r \<in> set (collected (notificationSender senv m)). \<not> success r)))
   \<and> (collected (notificationSender senv m) \<noteq> [] \<longleftrightarrow>
        (\<exists>prefs. getCosmosClient (sender_cosmos_endpoint senv) = Inr ()
           \<and> getUserPreferences (preferences_reply senv) = Inr (Some prefs)
           \<and> (\<exists>c \<in> set (channels m). channelAttempted prefs c)))"
proof
  show "isl (outcome (notificationSender senv m)) \<longleftrightarrow>
      isl (getCosmosClient (sender_cosmos_endpoint senv))
      \<or> isl (getUserPreferences (preferences_reply senv))
      \<or> (collected (notificationSender senv m) \<noteq> []
          \<and> (\<forall>r \<in> set (collected (notificationSender senv m)). \<not> success r))"
    by (auto simp: notificationSender_def Let_def filter_empty_conv
        split: sum.splits option.splits prod.splits)
  show "collected (notificationSender senv m) \<noteq> [] \<longleftrightarrow>
        (\<exists>prefs. getCosmosClient (sender_cosmos_endpoint senv) = Inr ()
           \<and> getUserPreferences (preferences_reply senv) = Inr (Some prefs)
           \<and> (\<exists>c \<in> set (channels m). channelAttempted prefs c))"
    unfolding notificationSender_collected processChannels_results
    by (auto simp: processChannel_attempted split: sum.splits option.splits)
qed

text \<open>
  SMS enabled with a phone number: a refused send signals failure, an accepted one
  success; absent preferences signal success without any attempt.
\<close>

theorem notificationSender_failure_iff_witness:
  "isl (outcome (notificationSender (fx_sender_env (Resource (Some fx_preferences)) False) fx_message))
   \<and> \<not> isl (getCosmosClient (sender_cosmos_endpoint (fx_sender_env (Resource (Some fx_preferences)) False)))
   \<and> \<not> isl (getUserPreferences (preferences_reply (fx_sender_env (Resource (Some fx_preferences)) False)))
   \<and> length (collected (notificationSender (fx_sender_env (Resource (Some fx_preferences)) False) fx_message)) = 1
   \<and> \<not> isl (outcome (notificationSender (fx_sender_env (Resource (Some fx_preferences)) True) fx_message))
   \<and> \<not> isl (outcome (notificationSender (fx_sender_env (Resource None) False) fx_message))"
proof -
  let ?bad = "fx_sender_env (Resource (Some fx_preferences)) False"
  let ?good = "fx_sender_env (Resource (Some fx_preferences)) True"
  let ?none = "fx_sender_env (Resource None) False"
  have init: "getCosmosClient (sender_cosmos_endpoint (fx_sender_env reply ok)) = Inr ()"
    for reply ok
    by (simp add: fx_sender_env_def getCosmosClient_def truthy_def ascii_def)
  have prefs: "getUserPreferences (preferences_reply (fx_sender_env (Resource r) ok)) = Inr r"
    for r ok
    by (simp add: fx_sender_env_def getUserPreferences_def)
  have sent: "fst (processChannel (fx_sender_env reply ok) fx_message fx_preferences sms) =
      [if ok then succeededResult fx_message sms 6000
       else failedResult fx_message sms (SmsDeliveryFailed (Some (ascii ''Invalid sender''))) 6000]"
    for reply ok
    by (simp add: processChannel_def fx_preferences_def truthy_def sendSmsNotification_def
        SmsNotificationService_new_def fx_sender_env_def fx_sms_env_def sendSms_def fx_acs_def
        Let_def ascii_def)
  have chans: "channels fx_message = [sms]"
    by (simp add: fx_message_def newNotificationRequest_def)
  have coll: "collected (notificationSender (fx_sender_env (Resource (Some fx_preferences)) ok) fx_message)
      = [if ok then succeededResult fx_message sms 6000
       else failedResult fx_message sms (SmsDeliveryFailed (Some (ascii ''Invalid sender''))) 6000]"
    for ok
    unfolding notificationSender_collected processChannels_results chans
    by (simp add: sent init prefs)
  have collnone: "collected (notificationSender ?none fx_message) = []"
    unfolding notificationSender_collected
    by (simp add: init prefs)
  show ?thesis
    using notificationSender_failure_iff [of ?bad fx_message, THEN conjunct1]
      notificationSender_failure_iff [of ?good fx_message, THEN conjunct1]
      notificationSender_failure_iff [of ?none fx_message, THEN conjunct1]
    by (simp add: init prefs coll collnone failedResult_def succeededResult_def)
qed

text \<open>
  C4 as stated fails: a preference read answered with 503 is rethrown, so failure is
  signalled although no channel was attempted.
\<close>

theorem lookup_failure_signals_failure:
  "isl (outcome (notificationSender
          (fx_sender_env (ReadFailed (Some 503) (ascii ''Service Unavailable'')) True) fx_message))
   \<and> collected (notificationSender
          (fx_sender_env (ReadFailed (Some 503) (ascii ''Service Unavailable'')) True) fx_message) = []"
  by (simp add: notificationSender_def fx_sender_env_def getCosmosClient_def getUserPreferences_def
      truthy_def ascii_def)

section \<open>Properties of the SMS configuration and of the provider adapter\<close>

text \<open>A missing endpoint does fail fast: the constructor throws and nothing is sent.\<close>

lemma missing_endpoint_fails_fast:
  "\<not> truthy (ACS_ENDPOINT (sms_env senv)) \<Longrightarrow>
   sendSmsNotification senv m phone =
     (Inl (ConfigError (ascii ''ACS_ENDPOINT environment variable is required'')), [])"
  by (simp add: sendSmsNotification_def SmsNotificationService_new_def)

text \<open>
  C7 at its failing input: with the endpoint set and \<open>ACS_SMS_FROM_NUMBER\<close> unset the
  service is constructed with an empty sender number, \<open>isConfigured\<close> is false, and
  \<open>sendSms\<close> still hands the request, with the empty sender, to the external client.
\<close>

theorem sendSms_without_from_number:
  "SmsNotificationService_new (fx_sms_env None) =
     Inr \<lparr> client = ManagedIdentityClient (ascii ''https://acs.example''), fromNumber = [] \<rparr>
   \<and> \<not> isConfigured
         \<lparr> client = ManagedIdentityClient (ascii ''https://acs.example''), fromNumber = [] \<rparr>
         (fx_sms_env None)
   \<and> sendSms \<lparr> client = ManagedIdentityClient (ascii ''https://acs.example''), fromNumber = [] \<rparr>
        (fx_acs False) (ascii ''+15550100'') (ascii ''In stock'') =
      (Inr (Some \<lparr> successful = False, messageId = None,
                   errorMessage = Some (ascii ''Invalid sender'') \<rparr>),
       [\<lparr> sr_from = [], sr_to = [ascii ''+15550100''], sr_message = ascii ''In stock'' \<rparr>])"
  by (simp add: SmsNotificationService_new_def fx_sms_env_def truthy_def isConfigured_def
      sendSms_def fx_acs_def ascii_def)

text \<open>
  C8 at its failing input. The adapter stores the rate limit it is configured with and
  reads it nowhere: through an adapter limited to one request per second, two checks
  10 ms apart both succeed and both product requests reach the upstream within the same
  second, so the configured limit is not kept and no rate-limited condition is raised.
\<close>

theorem rate_limit_not_enforced:
  "requestsPerSecond (bb_rateLimit (BestBuyInventoryProvider_new fx_config)) = 1
   \<and> map isl (fst (checkSequence (BestBuyInventoryProvider_new fx_config) (fx_upstream True)
            [(0, fx_sku, None), (10, fx_sku, None)])) = [False, False]
   \<and> snd (checkSequence (BestBuyInventoryProvider_new fx_config) (fx_upstream True)
            [(0, fx_sku, None), (10, fx_sku, None)])
       = [(0, ProductsRequest fx_sku), (10, ProductsRequest fx_sku)]
   \<and> \<not> spec_withinRate (bb_rateLimit (BestBuyInventoryProvider_new fx_config))
         (snd (checkSequence (BestBuyInventoryProvider_new fx_config) (fx_upstream True)
            [(0, fx_sku, None), (10, fx_sku, None)]))"
  by (simp add: checkInventory_def fetchProductDetails_def fx_upstream_def fx_config_def
      BestBuyInventoryProvider_new_def fx_sku_def fx_result_def spec_withinRate_def ascii_def)

end
